theory Spec2Isabelle
  imports Complex_Main
begin

section \<open>Consistently Interactive: the data model\<close>

text \<open>
  A shallow embedding of \<^verbatim>\<open>lighthouse-core/gather/computed/metrics/consistently-interactive.js\<close>.
  A JavaScript \<^verbatim>\<open>Number\<close> is modelled as a \<^typ>\<open>real\<close>: rounding of floating point
  arithmetic is not modelled. The theorems on the metric therefore state the
  expressions of the code as the code writes them, and comparisons between them; they
  do not state identities such as \<open>(x / 1000) * 1000 = x\<close>, which hold of the reals and
  not of the doubles. A timestamp that may be missing from the trace
  (\<^verbatim>\<open>undefined\<close>) is a \<^typ>\<open>real option\<close>.
\<close>

text \<open>\<^verbatim>\<open>@typedef TimePeriod\<close>: the field \<^verbatim>\<open>end\<close> is written \<open>end'\<close>.\<close>

record TimePeriod =
  start :: real
  end' :: real

text \<open>
  The objects returned by \<^verbatim>\<open>TracingProcessor.getMainThreadTopLevelEvents\<close>: a time
  period, relative to the navigation start and in milliseconds, with its duration.
\<close>

record TopLevelEvent = TimePeriod +
  duration :: real

text \<open>\<^verbatim>\<open>traceOfTab.timestamps\<close>, in microseconds.\<close>

record Timestamps =
  navigationStart :: real
  firstMeaningfulPaint :: "real option"
  domContentLoaded :: "real option"
  traceEnd :: real

text \<open>
  \<^verbatim>\<open>traceOfTab\<close>: only its timestamps are read here; the other fields, which
  the trace processor reads, are the extension of the record.
\<close>

record TraceOfTab =
  timestamps :: Timestamps

record QuietPeriodInfo =
  cpuQuietPeriod :: TimePeriod
  networkQuietPeriod :: TimePeriod
  cpuQuietPeriods :: "TimePeriod list"
  networkQuietPeriods :: "TimePeriod list"

text \<open>The four entries of \<^verbatim>\<open>LHError.errors\<close> that this file throws.\<close>

datatype LHError =
  NO_FMP
| NO_DCL
| NO_TTI_NETWORK_IDLE_PERIOD
| NO_TTI_CPU_IDLE_PERIOD

definition REQUIRED_QUIET_WINDOW :: real where
  "REQUIRED_QUIET_WINDOW = 5000"

definition ALLOWED_CONCURRENT_REQUESTS :: nat where
  "ALLOWED_CONCURRENT_REQUESTS = 2"

section \<open>The quiet periods of the network and of the CPU\<close>

text \<open>
  \<^verbatim>\<open>_findNetworkQuietPeriods\<close>. \<^verbatim>\<open>NetworkRecorder.findNetworkQuietPeriods\<close> lives in
  another file, so it is the parameter \<open>NR\<close>.
\<close>

definition findNetworkQuietPeriods ::
  "('n \<Rightarrow> nat \<Rightarrow> real \<Rightarrow> TimePeriod list) \<Rightarrow> 'n \<Rightarrow> 't TraceOfTab_scheme \<Rightarrow> TimePeriod list" where
  "findNetworkQuietPeriods NR networkRecords traceOfTab =
     (let traceEndTsInMs = traceEnd (timestamps traceOfTab) / 1000
      in NR networkRecords ALLOWED_CONCURRENT_REQUESTS traceEndTsInMs)"

text \<open>
  The callback of \<^verbatim>\<open>longTasks.forEach\<close> in \<^verbatim>\<open>_findCPUQuietPeriods\<close>: it takes the
  periods pushed so far and the index of the task, and returns the periods after its
  pushes. \<^verbatim>\<open>forEach\<close> calls it with every index below the length, and it reads
  \<^verbatim>\<open>longTasks[index + 1]\<close> only when \<open>index\<close> is not the last one, so every read is
  in range.
\<close>

definition forEachTask ::
  "real \<Rightarrow> real \<Rightarrow> 'a TimePeriod_scheme list \<Rightarrow> TimePeriod list \<Rightarrow> nat \<Rightarrow> TimePeriod list" where
  "forEachTask navStartTsInMs traceEndTsInMs longTasks quietPeriods index =
     (let task = longTasks ! index;
          quietPeriods1 =
            (if index = 0
             then quietPeriods @ [\<lparr>start = 0, end' = start task + navStartTsInMs\<rparr>]
             else quietPeriods)
      in if index = length longTasks - 1
         then quietPeriods1 @ [\<lparr>start = end' task + navStartTsInMs, end' = traceEndTsInMs\<rparr>]
         else quietPeriods1 @
              [\<lparr>start = end' task + navStartTsInMs,
                end' = start (longTasks ! (index + 1)) + navStartTsInMs\<rparr>])"

text \<open>\<^verbatim>\<open>_findCPUQuietPeriods\<close>.\<close>

definition findCPUQuietPeriods ::
  "'a TimePeriod_scheme list \<Rightarrow> 't TraceOfTab_scheme \<Rightarrow> TimePeriod list" where
  "findCPUQuietPeriods longTasks traceOfTab =
     (let navStartTsInMs = navigationStart (timestamps traceOfTab) / 1000;
          traceEndTsInMs = traceEnd (timestamps traceOfTab) / 1000
      in if length longTasks = 0
         then [\<lparr>start = 0, end' = traceEndTsInMs\<rparr>]
         else foldl (forEachTask navStartTsInMs traceEndTsInMs longTasks) []
                [0 ..< length longTasks])"

section \<open>The overlap of a CPU quiet period and a network quiet period\<close>

text \<open>
  \<^verbatim>\<open>isLongEnoughQuietPeriod\<close>, a closure over \<^verbatim>\<open>FMPTsInMs\<close>. When the first meaningful
  paint is \<^verbatim>\<open>undefined\<close>, \<^verbatim>\<open>FMPTsInMs\<close> is \<^verbatim>\<open>NaN\<close> and the first comparison
  is false, so is the conjunction.
\<close>

definition isLongEnoughQuietPeriod :: "real option \<Rightarrow> TimePeriod \<Rightarrow> bool" where
  "isLongEnoughQuietPeriod FMPTsInMs period =
     (case FMPTsInMs of
        None \<Rightarrow> False
      | Some fmp \<Rightarrow>
          end' period > fmp + REQUIRED_QUIET_WINDOW \<and>
          end' period - start period \<ge> REQUIRED_QUIET_WINDOW)"

text \<open>
  \<^verbatim>\<open>Array.prototype.shift\<close>: the first element and the rest of the queue;
  \<^verbatim>\<open>undefined\<close> (\<open>None\<close>) on an empty queue, which stays empty.
\<close>

definition shift :: "'a list \<Rightarrow> 'a option \<times> 'a list" where
  "shift queue = (case queue of [] \<Rightarrow> (None, []) | x # xs \<Rightarrow> (Some x, xs))"

text \<open>
  The \<^verbatim>\<open>while\<close> loop of \<^verbatim>\<open>findOverlappingQuietPeriods\<close> on the two candidates and the
  two queues: \<open>Inr\<close> of the matched pair when the loop body returns, \<open>Inl\<close> of the
  two candidates with which the loop is left.
\<close>

function (sequential) whileCandidates ::
  "TimePeriod option \<Rightarrow> TimePeriod list \<Rightarrow> TimePeriod option \<Rightarrow> TimePeriod list \<Rightarrow>
   (TimePeriod option \<times> TimePeriod option) + (TimePeriod \<times> TimePeriod)" where
  "whileCandidates (Some cpuCandidate) cpuQueue (Some networkCandidate) networkQueue =
     (if start cpuCandidate \<ge> start networkCandidate
      then if end' networkCandidate \<ge> start cpuCandidate + REQUIRED_QUIET_WINDOW
           then Inr (cpuCandidate, networkCandidate)
           else whileCandidates (Some cpuCandidate) cpuQueue
                  (fst (shift networkQueue)) (snd (shift networkQueue))
      else if end' cpuCandidate \<ge> start networkCandidate + REQUIRED_QUIET_WINDOW
           then Inr (cpuCandidate, networkCandidate)
           else whileCandidates (fst (shift cpuQueue)) (snd (shift cpuQueue))
                  (Some networkCandidate) networkQueue)"
| "whileCandidates cpuCandidate cpuQueue networkCandidate networkQueue =
     Inl (cpuCandidate, networkCandidate)"
  by pat_completeness auto
termination
  by (relation "measure (\<lambda>(c, cq, n, nq).
        length cq + length nq + (case c of None \<Rightarrow> 0 | Some _ \<Rightarrow> 1)
          + (case n of None \<Rightarrow> 0 | Some _ \<Rightarrow> 1))")
     (auto simp: shift_def split: list.splits)

text \<open>
  Lines 93 to 125 of the source: the two queues are copies of the two filtered lists,
  the first candidates are shifted off them, and the loop runs.
\<close>

definition overlapLoop ::
  "TimePeriod list \<Rightarrow> TimePeriod list \<Rightarrow>
   (TimePeriod option \<times> TimePeriod option) + (TimePeriod \<times> TimePeriod)" where
  "overlapLoop cpuQuietPeriods' networkQuietPeriods' =
     (let cpuQueue = cpuQuietPeriods';
          networkQueue = networkQuietPeriods'
      in whileCandidates (fst (shift cpuQueue)) (snd (shift cpuQueue))
           (fst (shift networkQueue)) (snd (shift networkQueue)))"

text \<open>
  \<^verbatim>\<open>findOverlappingQuietPeriods\<close>: the two filtered lists, the loop, and the
  \<^verbatim>\<open>throw\<close> after the loop, which looks at the CPU candidate only.
\<close>

definition findOverlappingQuietPeriods ::
  "('n \<Rightarrow> nat \<Rightarrow> real \<Rightarrow> TimePeriod list) \<Rightarrow> 'a TimePeriod_scheme list \<Rightarrow> 'n \<Rightarrow>
   't TraceOfTab_scheme \<Rightarrow> LHError + QuietPeriodInfo" where
  "findOverlappingQuietPeriods NR longTasks networkRecords traceOfTab =
     (let FMPTsInMs = map_option (\<lambda>fmp. fmp / 1000) (firstMeaningfulPaint (timestamps traceOfTab));
          networkQuietPeriods' =
            filter (isLongEnoughQuietPeriod FMPTsInMs)
              (findNetworkQuietPeriods NR networkRecords traceOfTab);
          cpuQuietPeriods' =
            filter (isLongEnoughQuietPeriod FMPTsInMs) (findCPUQuietPeriods longTasks traceOfTab)
      in case overlapLoop cpuQuietPeriods' networkQuietPeriods' of
           Inr (cpuCandidate, networkCandidate) \<Rightarrow>
             Inr \<lparr>cpuQuietPeriod = cpuCandidate, networkQuietPeriod = networkCandidate,
                  cpuQuietPeriods = cpuQuietPeriods', networkQuietPeriods = networkQuietPeriods'\<rparr>
         | Inl (cpuCandidate, networkCandidate) \<Rightarrow>
             Inl (if cpuCandidate \<noteq> None
                  then NO_TTI_NETWORK_IDLE_PERIOD
                  else NO_TTI_CPU_IDLE_PERIOD))"

section \<open>The metric\<close>

text \<open>
  \<^verbatim>\<open>data\<close>, the argument of \<^verbatim>\<open>computeObservedMetric\<close>, and the metric it returns.
  Local variables that share their name with a field are written with a prime.
\<close>

record ('t, 'n) MetricComputationData =
  traceOfTab :: "'t TraceOfTab_scheme"
  networkRecords :: "'n"

record Metric =
  timing :: real
  timestamp :: real

text \<open>
  \<^verbatim>\<open>!x\<close> on a timestamp: true when it is \<^verbatim>\<open>undefined\<close> or zero.
\<close>

definition falsy :: "real option \<Rightarrow> bool" where
  "falsy x = (case x of None \<Rightarrow> True | Some v \<Rightarrow> v = 0)"

text \<open>
  \<^verbatim>\<open>computeObservedMetric\<close>. \<^verbatim>\<open>TracingProcessor.getMainThreadTopLevelEvents\<close> lives in
  another file, so it is the parameter \<open>TP\<close>. The argument \<^verbatim>\<open>artifacts\<close> is never
  read and is left out. Past the two checks both timestamps are numbers; the
  branches for \<open>None\<close> there are never taken.
\<close>

definition computeObservedMetric ::
  "('n \<Rightarrow> nat \<Rightarrow> real \<Rightarrow> TimePeriod list) \<Rightarrow> ('t TraceOfTab_scheme \<Rightarrow> TopLevelEvent list) \<Rightarrow>
   ('t, 'n) MetricComputationData \<Rightarrow> LHError + Metric" where
  "computeObservedMetric NR TP data =
     (if falsy (firstMeaningfulPaint (timestamps (traceOfTab data))) then Inl NO_FMP
      else if falsy (domContentLoaded (timestamps (traceOfTab data))) then Inl NO_DCL
      else
        let longTasks = filter (\<lambda>event. duration event \<ge> 50) (TP (traceOfTab data))
        in case findOverlappingQuietPeriods NR longTasks (networkRecords data) (traceOfTab data) of
             Inl e \<Rightarrow> Inl e
           | Inr quietPeriodInfo \<Rightarrow>
               (case (firstMeaningfulPaint (timestamps (traceOfTab data)),
                      domContentLoaded (timestamps (traceOfTab data))) of
                  (Some fmp, Some dcl) \<Rightarrow>
                    let cpuQuietPeriod' = cpuQuietPeriod quietPeriodInfo;
                        timestamp' =
                          max (start cpuQuietPeriod') (max (fmp / 1000) (dcl / 1000)) * 1000;
                        timing' =
                          (timestamp' - navigationStart (timestamps (traceOfTab data))) / 1000
                    in Inr \<lparr>timing = timing', timestamp = timestamp'\<rparr>
                | _ \<Rightarrow> Inl NO_FMP))"

section \<open>The rule of the specification for a matching pair\<close>

text \<open>
  This definition follows the words of the specification, not the code: a CPU period
  and a network period qualify when the one that starts first is still open 5000 ms
  after the start of the other; on equal starts the test is the one on the network
  period.
\<close>

definition qualifyingPair :: "TimePeriod \<Rightarrow> TimePeriod \<Rightarrow> bool" where
  "qualifyingPair cpu net =
     (if start cpu \<ge> start net then end' net \<ge> start cpu + 5000
      else end' cpu \<ge> start net + 5000)"

section \<open>The CPU quiet periods as a list\<close>

text \<open>
  The periods pushed by the first \<open>k\<close> calls of the callback: the period before the
  first task, a gap after each task that is not the last, and the period after the
  last task once it is reached.
\<close>

lemma foldl_forEachTask:
  assumes "0 < k" "k \<le> length tasks"
  shows "foldl (forEachTask nav te tasks) [] [0 ..< k] =
     \<lparr>start = 0, end' = start (tasks ! 0) + nav\<rparr> #
     map (\<lambda>i. \<lparr>start = end' (tasks ! i) + nav, end' = start (tasks ! (i + 1)) + nav\<rparr>)
       [0 ..< (if k = length tasks then k - 1 else k)] @
     (if k = length tasks then [\<lparr>start = end' (tasks ! (k - 1)) + nav, end' = te\<rparr>] else [])"
  using assms
proof (induction k)
  case 0
  then show ?case by simp
next
  case (Suc j)
  let ?f = "forEachTask nav te tasks"
  have step: "foldl ?f [] [0 ..< Suc j] = ?f (foldl ?f [] [0 ..< j]) j"
    by simp
  show ?case
  proof (cases "j = 0")
    case True
    have "?f [] 0 = \<lparr>start = 0, end' = start (tasks ! 0) + nav\<rparr> #
        (if Suc 0 = length tasks then [\<lparr>start = end' (tasks ! 0) + nav, end' = te\<rparr>]
         else [\<lparr>start = end' (tasks ! 0) + nav, end' = start (tasks ! 1) + nav\<rparr>])"
      using Suc.prems by (auto simp: forEachTask_def Let_def)
    then show ?thesis using True step by simp
  next
    case False
    then have ih: "foldl ?f [] [0 ..< j] =
       \<lparr>start = 0, end' = start (tasks ! 0) + nav\<rparr> #
       map (\<lambda>i. \<lparr>start = end' (tasks ! i) + nav, end' = start (tasks ! (i + 1)) + nav\<rparr>) [0 ..< j]"
      using Suc by simp
    have "?f (foldl ?f [] [0 ..< j]) j = foldl ?f [] [0 ..< j] @
        (if Suc j = length tasks then [\<lparr>start = end' (tasks ! j) + nav, end' = te\<rparr>]
         else [\<lparr>start = end' (tasks ! j) + nav, end' = start (tasks ! (j + 1)) + nav\<rparr>])"
      using False Suc.prems unfolding forEachTask_def [of nav te tasks "foldl ?f [] [0 ..< j]" j]
      by (auto simp: Let_def)
    moreover have "Suc j = length tasks \<Longrightarrow> length tasks - Suc 0 = j"
      by arith
    ultimately show ?thesis unfolding step ih by auto
  qed
qed

lemma findCPUQuietPeriods_nonempty:
  assumes "tasks \<noteq> []"
  shows "findCPUQuietPeriods tasks tab =
     \<lparr>start = 0, end' = start (hd tasks) + navigationStart (timestamps tab) / 1000\<rparr> #
     map (\<lambda>i. \<lparr>start = end' (tasks ! i) + navigationStart (timestamps tab) / 1000,
                end' = start (tasks ! (i + 1)) + navigationStart (timestamps tab) / 1000\<rparr>)
       [0 ..< length tasks - 1] @
     [\<lparr>start = end' (last tasks) + navigationStart (timestamps tab) / 1000,
       end' = traceEnd (timestamps tab) / 1000\<rparr>]"
proof -
  have "0 < length tasks" using assms by simp
  then show ?thesis
    using foldl_forEachTask [of "length tasks" tasks]  assms
    by (simp add: findCPUQuietPeriods_def Let_def hd_conv_nth last_conv_nth)
qed

text \<open>
  The period at each index, and the facts on the tasks that the claims assume: each
  task ends no earlier than it starts, and no later than the next one starts.
\<close>

lemma findCPUQuietPeriods_length:
  "tasks \<noteq> [] \<Longrightarrow> length (findCPUQuietPeriods tasks tab) = length tasks + 1"
  by (simp add: findCPUQuietPeriods_nonempty)

lemma findCPUQuietPeriods_nth:
  assumes "tasks \<noteq> []" "k \<le> length tasks"
  shows "findCPUQuietPeriods tasks tab ! k =
     \<lparr>start = (if k = 0 then 0
               else end' (tasks ! (k - 1)) + navigationStart (timestamps tab) / 1000),
      end' = (if k = length tasks then traceEnd (timestamps tab) / 1000
              else start (tasks ! k) + navigationStart (timestamps tab) / 1000)\<rparr>"
proof (cases "k = 0")
  case True
  then show ?thesis using assms
    by (simp add: findCPUQuietPeriods_nonempty hd_conv_nth)
next
  case False
  then obtain j where j: "k = Suc j" by (cases k) auto
  show ?thesis
  proof (cases "k = length tasks")
    case True
    then have "j = length tasks - 1" using j by simp
    then show ?thesis using assms True j
      by (simp add: findCPUQuietPeriods_nonempty nth_append last_conv_nth)
  next
    case False
    then have "j < length tasks - 1" using j assms by simp
    then show ?thesis using assms False j
      by (simp add: findCPUQuietPeriods_nonempty nth_append)
  qed
qed

lemma tasks_chain:
  fixes tasks :: "'a TimePeriod_scheme list"
  assumes wf: "\<forall>t \<in> set tasks. start t \<le> end' t"
    and gap: "\<forall>i. i + 1 < length tasks \<longrightarrow> end' (tasks ! i) \<le> start (tasks ! (i + 1))"
  shows "i \<le> j \<Longrightarrow> j < length tasks \<Longrightarrow>
         start (tasks ! i) \<le> start (tasks ! j) \<and> end' (tasks ! i) \<le> end' (tasks ! j)"
proof (induction j)
  case 0
  then show ?case by simp
next
  case (Suc j)
  show ?case
  proof (cases "i = Suc j")
    case True
    then show ?thesis by simp
  next
    case False
    then have ih: "start (tasks ! i) \<le> start (tasks ! j)" "end' (tasks ! i) \<le> end' (tasks ! j)"
      using Suc by simp_all
    have 1: "end' (tasks ! j) \<le> start (tasks ! Suc j)" using gap Suc.prems by simp
    have 2: "start (tasks ! j) \<le> end' (tasks ! j)" using wf Suc.prems by simp
    have 3: "start (tasks ! Suc j) \<le> end' (tasks ! Suc j)" using wf Suc.prems by simp
    show ?thesis using ih 1 2 3 by linarith
  qed
qed


lemma findCPUQuietPeriods_sorted:
  fixes tasks :: "'a TimePeriod_scheme list"
  assumes wf: "\<forall>t \<in> set tasks. start t \<le> end' t"
    and gap: "\<forall>i. i + 1 < length tasks \<longrightarrow> end' (tasks ! i) \<le> start (tasks ! (i + 1))"
    and lo: "tasks \<noteq> [] \<longrightarrow> 0 \<le> start (hd tasks) + navigationStart (timestamps tab) / 1000"
  shows "sorted (map start (findCPUQuietPeriods tasks tab))"
proof (cases "tasks = []")
  case True
  then show ?thesis by (simp add: findCPUQuietPeriods_def)
next
  case False
  let ?ps = "findCPUQuietPeriods tasks tab"
  let ?nav = "navigationStart (timestamps tab) / 1000"
  have len: "length ?ps = length tasks + 1" using False by (rule findCPUQuietPeriods_length)
  have "start (?ps ! i) \<le> start (?ps ! j)" if "i \<le> j" "j < length ?ps" for i j
  proof -
    have j: "j \<le> length tasks" and i: "i \<le> length tasks" using that len by simp_all
    show ?thesis
    proof (cases "i = 0")
      case i0: True
      show ?thesis
      proof (cases "j = 0")
        case True
        then show ?thesis using i0 by simp
      next
        case False
        then have "j - 1 < length tasks" using j by simp
        then have "start (tasks ! 0) \<le> start (tasks ! (j - 1))"
          "start (tasks ! (j - 1)) \<le> end' (tasks ! (j - 1))"
          using tasks_chain [OF wf gap, of 0 "j - 1"] wf by simp_all
        then have "start (tasks ! 0) \<le> end' (tasks ! (j - 1))" by linarith
        moreover have "0 \<le> start (tasks ! 0) + ?nav" using lo \<open>tasks \<noteq> []\<close> by (simp add: hd_conv_nth)
        ultimately show ?thesis using i0 False j \<open>tasks \<noteq> []\<close>
          by (simp add: findCPUQuietPeriods_nth)
      qed
    next
      case False
      then have "i - 1 \<le> j - 1" "j - 1 < length tasks" "j \<noteq> 0" using that j by simp_all
      then have "end' (tasks ! (i - 1)) \<le> end' (tasks ! (j - 1))"
        using tasks_chain [OF wf gap, of "i - 1" "j - 1"] by simp
      then show ?thesis using False \<open>j \<noteq> 0\<close> i j \<open>tasks \<noteq> []\<close>
        by (simp add: findCPUQuietPeriods_nth)
    qed
  qed
  then show ?thesis by (simp add: sorted_iff_nth_mono)
qed

lemma findCPUQuietPeriods_disjoint:
  fixes tasks :: "'a TimePeriod_scheme list"
  assumes wf: "\<forall>t \<in> set tasks. start t \<le> end' t"
    and gap: "\<forall>i. i + 1 < length tasks \<longrightarrow> end' (tasks ! i) \<le> start (tasks ! (i + 1))"
    and ij: "i < j" "j < length (findCPUQuietPeriods tasks tab)"
  shows "end' (findCPUQuietPeriods tasks tab ! i) \<le> start (findCPUQuietPeriods tasks tab ! j)"
proof (cases "tasks = []")
  case True
  then show ?thesis using ij by (simp add: findCPUQuietPeriods_def)
next
  case False
  have len: "length (findCPUQuietPeriods tasks tab) = length tasks + 1"
    using False by (rule findCPUQuietPeriods_length)
  have 1: "i \<le> j - 1" "j - 1 < length tasks" "j \<noteq> 0" "i \<noteq> length tasks" "i \<le> length tasks"
    "j \<le> length tasks"
    using ij len by simp_all
  then have "start (tasks ! i) \<le> start (tasks ! (j - 1))"
    using tasks_chain [OF wf gap, of i "j - 1"] by simp
  moreover have "start (tasks ! (j - 1)) \<le> end' (tasks ! (j - 1))" using wf 1 by simp
  ultimately show ?thesis using 1 False by (simp add: findCPUQuietPeriods_nth)
qed


lemma findCPUQuietPeriods_within:
  fixes tasks :: "'a TimePeriod_scheme list"
  assumes wf: "\<forall>t \<in> set tasks. start t \<le> end' t"
    and gap: "\<forall>i. i + 1 < length tasks \<longrightarrow> end' (tasks ! i) \<le> start (tasks ! (i + 1))"
    and lo: "tasks \<noteq> [] \<longrightarrow> 0 \<le> start (hd tasks) + navigationStart (timestamps tab) / 1000"
    and hi: "tasks \<noteq> [] \<longrightarrow>
             end' (last tasks) + navigationStart (timestamps tab) / 1000 \<le> traceEnd (timestamps tab) / 1000"
    and p: "p \<in> set (findCPUQuietPeriods tasks tab)"
  shows "0 \<le> start p \<and> end' p \<le> traceEnd (timestamps tab) / 1000"
proof (cases "tasks = []")
  case True
  then show ?thesis using p by (simp add: findCPUQuietPeriods_def)
next
  case False
  let ?nav = "navigationStart (timestamps tab) / 1000"
  let ?n = "length tasks"
  have first: "0 \<le> start (tasks ! 0) + ?nav" using lo False by (simp add: hd_conv_nth)
  have final: "end' (tasks ! (?n - 1)) + ?nav \<le> traceEnd (timestamps tab) / 1000"
    using hi False by (simp add: last_conv_nth)
  obtain k where "k < length (findCPUQuietPeriods tasks tab)"
    and pk: "p = findCPUQuietPeriods tasks tab ! k"
    using p by (auto simp: in_set_conv_nth)
  then have "k \<le> ?n" using findCPUQuietPeriods_length [OF False, of tab] by simp
  note k = this pk
  have "0 \<le> start p"
  proof (cases "k = 0")
    case True
    then show ?thesis using k False by (simp add: findCPUQuietPeriods_nth)
  next
    case k0: False
    then have "k - 1 < ?n" using k by simp
    then have "start (tasks ! 0) \<le> start (tasks ! (k - 1))"
      "start (tasks ! (k - 1)) \<le> end' (tasks ! (k - 1))"
      using tasks_chain [OF wf gap, of 0 "k - 1"] wf by simp_all
    then show ?thesis using first k k0 False by (simp add: findCPUQuietPeriods_nth)
  qed
  moreover have "end' p \<le> traceEnd (timestamps tab) / 1000"
  proof (cases "k = ?n")
    case True
    then show ?thesis using k False by (simp add: findCPUQuietPeriods_nth)
  next
    case kn: False
    then have "k < ?n" using k by simp
    then have "end' (tasks ! k) \<le> end' (tasks ! (?n - 1))"
      "start (tasks ! k) \<le> end' (tasks ! k)"
      using tasks_chain [OF wf gap, of k "?n - 1"] wf by simp_all
    then show ?thesis using final k kn False by (simp add: findCPUQuietPeriods_nth)
  qed
  ultimately show ?thesis ..
qed

lemma tasks_within:
  fixes tasks :: "'a TimePeriod_scheme list"
  assumes wf: "\<forall>t \<in> set tasks. start t \<le> end' t"
    and gap: "\<forall>i. i + 1 < length tasks \<longrightarrow> end' (tasks ! i) \<le> start (tasks ! (i + 1))"
    and lo: "tasks \<noteq> [] \<longrightarrow> 0 \<le> start (hd tasks) + nav"
    and hi: "tasks \<noteq> [] \<longrightarrow> end' (last tasks) + nav \<le> te"
    and t: "t \<in> set tasks"
  shows "0 \<le> start t + nav \<and> end' t + nav \<le> te"
proof -
  have ne: "tasks \<noteq> []" using t by auto
  obtain k where k: "k < length tasks" "t = tasks ! k"
    using t by (auto simp: in_set_conv_nth)
  have "start (tasks ! 0) \<le> start (tasks ! k)" "end' (tasks ! k) \<le> end' (tasks ! (length tasks - 1))"
    using tasks_chain [OF wf gap, of 0 k] tasks_chain [OF wf gap, of k "length tasks - 1"] k
    by simp_all
  moreover have "0 \<le> start (tasks ! 0) + nav" using lo ne by (simp add: hd_conv_nth)
  moreover have "end' (tasks ! (length tasks - 1)) + nav \<le> te"
    using hi ne by (simp add: last_conv_nth)
  ultimately show ?thesis using k by simp
qed

lemma findCPUQuietPeriods_covers:
  fixes tasks :: "'a TimePeriod_scheme list"
  assumes x: "0 \<le> x" "x \<le> traceEnd (timestamps tab) / 1000"
  shows "(\<exists>p \<in> set (findCPUQuietPeriods tasks tab). start p \<le> x \<and> x \<le> end' p) \<or>
         (\<exists>t \<in> set tasks. start t + navigationStart (timestamps tab) / 1000 \<le> x \<and>
                            x \<le> end' t + navigationStart (timestamps tab) / 1000)"
proof (cases "tasks = []")
  case True
  then show ?thesis using x by (simp add: findCPUQuietPeriods_def)
next
  case False
  let ?nav = "navigationStart (timestamps tab) / 1000"
  let ?n = "length tasks"
  let ?ps = "findCPUQuietPeriods tasks tab"
  have len: "length ?ps = ?n + 1" using False by (rule findCPUQuietPeriods_length)
  have mem: "?ps ! k \<in> set ?ps" if "k \<le> ?n" for k
    using that len by simp
  show ?thesis
  proof (cases "x \<le> start (tasks ! 0) + ?nav")
    case True
    have "start (?ps ! 0) \<le> x \<and> x \<le> end' (?ps ! 0)"
      using True x False by (simp add: findCPUQuietPeriods_nth)
    then show ?thesis using mem [of 0] by blast
  next
    case before: False
    let ?S = "{i. i < ?n \<and> start (tasks ! i) + ?nav \<le> x}"
    have fin: "finite ?S" by simp
    have "0 \<in> ?S" using before False by simp
    then have ne: "?S \<noteq> {}" by blast
    define m where "m = Max ?S"
    have "m \<in> ?S" unfolding m_def using fin ne by (rule Max_in)
    then have m: "m < ?n" "start (tasks ! m) + ?nav \<le> x" by simp_all
    have top: "i \<le> m" if "i \<in> ?S" for i
      unfolding m_def using fin that by (rule Max_ge)
    show ?thesis
    proof (cases "x \<le> end' (tasks ! m) + ?nav")
      case True
      then show ?thesis using m by (meson nth_mem)
    next
      case after: False
      have nth_start: "start (?ps ! (m + 1)) = end' (tasks ! m) + ?nav"
        using findCPUQuietPeriods_nth [OF False, of "m + 1" tab] m by simp
      have nth_end: "end' (?ps ! (m + 1)) =
          (if m + 1 = ?n then traceEnd (timestamps tab) / 1000
           else start (tasks ! (m + 1)) + ?nav)"
        using findCPUQuietPeriods_nth [OF False, of "m + 1" tab] m by simp
      have "x \<le> end' (?ps ! (m + 1))"
      proof (cases "m + 1 = ?n")
        case True
        then show ?thesis using x nth_end by simp
      next
        case notlast: False
        then have lt: "m + 1 < ?n" using m by simp
        have "\<not> start (tasks ! (m + 1)) + ?nav \<le> x"
        proof
          assume "start (tasks ! (m + 1)) + ?nav \<le> x"
          then have "m + 1 \<in> ?S" using lt by simp
          then have "m + 1 \<le> m" by (rule top)
          then show False by simp
        qed
        then show ?thesis using notlast nth_end by simp
      qed
      then have "start (?ps ! (m + 1)) \<le> x \<and> x \<le> end' (?ps ! (m + 1))"
        using after nth_start by simp
      moreover have "m + 1 \<le> ?n" using m by simp
      ultimately show ?thesis using mem [of "m + 1"] by blast
    qed
  qed
qed


section \<open>The loop on two lists\<close>

text \<open>The loop, unfolded once, in terms of the two lists still to be looked at.\<close>

lemma overlapLoop_Nil: "overlapLoop [] ns = Inl (None, fst (shift ns))"
  by (simp add: overlapLoop_def shift_def)

lemma overlapLoop_Cons_Nil: "overlapLoop (c # cq) [] = Inl (Some c, None)"
  by (simp add: overlapLoop_def shift_def)

lemma overlapLoop_Cons_Cons:
  "overlapLoop (c # cq) (n # nq) =
     (if start c \<ge> start n
      then if end' n \<ge> start c + REQUIRED_QUIET_WINDOW then Inr (c, n)
           else overlapLoop (c # cq) nq
      else if end' c \<ge> start n + REQUIRED_QUIET_WINDOW then Inr (c, n)
           else overlapLoop cq (n # nq))"
  by (simp add: overlapLoop_def shift_def)

lemma overlapLoop_prefixes:
  assumes "sorted (map start cs)" "sorted (map start ns)"
  shows "case overlapLoop cs ns of
           Inr (c, n) \<Rightarrow>
             (\<exists>cs1 cs2 ns1 ns2. cs = cs1 @ c # cs2 \<and> ns = ns1 @ n # ns2 \<and> qualifyingPair c n \<and>
                (\<forall>x \<in> set cs1. \<forall>y \<in> set ns. \<not> qualifyingPair x y) \<and>
                (\<forall>y \<in> set ns1. \<forall>x \<in> set cs. \<not> qualifyingPair x y))
         | Inl _ \<Rightarrow> (\<forall>x \<in> set cs. \<forall>y \<in> set ns. \<not> qualifyingPair x y)"
  using assms
proof (induction "length cs + length ns" arbitrary: cs ns rule: less_induct)
  case less
  show ?case
  proof (cases cs)
    case Nil
    then show ?thesis by (simp add: overlapLoop_Nil)
  next
    case cs: (Cons c cq)
    show ?thesis
    proof (cases ns)
      case Nil
      then show ?thesis using cs by (simp add: overlapLoop_Cons_Nil)
    next
      case ns: (Cons n nq)
      have c_le: "\<forall>x \<in> set cs. start c \<le> start x"
        using less.prems(1) cs by auto
      have n_le: "\<forall>y \<in> set ns. start n \<le> start y"
        using less.prems(2) ns by auto
      consider (hit1) "start c \<ge> start n" "end' n \<ge> start c + 5000"
        | (miss1) "start c \<ge> start n" "\<not> end' n \<ge> start c + 5000"
        | (hit2) "\<not> start c \<ge> start n" "end' c \<ge> start n + 5000"
        | (miss2) "\<not> start c \<ge> start n" "\<not> end' c \<ge> start n + 5000"
        by blast
      then show ?thesis
      proof cases
        case hit1
        then have "overlapLoop cs ns = Inr (c, n)" "qualifyingPair c n"
          by (simp_all add: cs ns overlapLoop_Cons_Cons REQUIRED_QUIET_WINDOW_def qualifyingPair_def)
        moreover have "\<exists>cs1 cs2 ns1 ns2. cs = cs1 @ c # cs2 \<and> ns = ns1 @ n # ns2 \<and> qualifyingPair c n \<and>
                (\<forall>x \<in> set cs1. \<forall>y \<in> set ns. \<not> qualifyingPair x y) \<and>
                (\<forall>y \<in> set ns1. \<forall>x \<in> set cs. \<not> qualifyingPair x y)"
          apply (rule exI [of _ "[]"], rule exI [of _ cq], rule exI [of _ "[]"], rule exI [of _ nq])
          using cs ns calculation(2) by simp
        ultimately show ?thesis by simp
      next
        case hit2
        then have "overlapLoop cs ns = Inr (c, n)" "qualifyingPair c n"
          by (simp_all add: cs ns overlapLoop_Cons_Cons REQUIRED_QUIET_WINDOW_def qualifyingPair_def)
        moreover have "\<exists>cs1 cs2 ns1 ns2. cs = cs1 @ c # cs2 \<and> ns = ns1 @ n # ns2 \<and> qualifyingPair c n \<and>
                (\<forall>x \<in> set cs1. \<forall>y \<in> set ns. \<not> qualifyingPair x y) \<and>
                (\<forall>y \<in> set ns1. \<forall>x \<in> set cs. \<not> qualifyingPair x y)"
          apply (rule exI [of _ "[]"], rule exI [of _ cq], rule exI [of _ "[]"], rule exI [of _ nq])
          using cs ns calculation(2) by simp
        ultimately show ?thesis by simp
      next
        case miss1
        have eq: "overlapLoop cs ns = overlapLoop cs nq"
          using miss1 by (simp add: cs ns overlapLoop_Cons_Cons REQUIRED_QUIET_WINDOW_def)
        have dead: "\<forall>x \<in> set cs. \<not> qualifyingPair x n"
          using miss1 c_le by (fastforce simp: qualifyingPair_def)
        have ih: "case overlapLoop cs nq of
           Inr (c, n) \<Rightarrow>
             (\<exists>cs1 cs2 ns1 ns2. cs = cs1 @ c # cs2 \<and> nq = ns1 @ n # ns2 \<and> qualifyingPair c n \<and>
                (\<forall>x \<in> set cs1. \<forall>y \<in> set nq. \<not> qualifyingPair x y) \<and>
                (\<forall>y \<in> set ns1. \<forall>x \<in> set cs. \<not> qualifyingPair x y))
         | Inl _ \<Rightarrow> (\<forall>x \<in> set cs. \<forall>y \<in> set nq. \<not> qualifyingPair x y)"
          using less.hyps [of cs nq] less.prems ns by simp
        show ?thesis
        proof (cases "overlapLoop cs nq")
          case (Inl s)
          then show ?thesis using ih dead eq ns by auto
        next
          case (Inr r)
          obtain a b where r: "r = (a, b)" by (cases r)
          from ih Inr r obtain cs1 cs2 ns1 ns2 where
            *: "cs = cs1 @ a # cs2" "nq = ns1 @ b # ns2" "qualifyingPair a b"
               "\<forall>x \<in> set cs1. \<forall>y \<in> set nq. \<not> qualifyingPair x y"
               "\<forall>y \<in> set ns1. \<forall>x \<in> set cs. \<not> qualifyingPair x y"
            by auto
          have "ns = (n # ns1) @ b # ns2" using * ns by simp
          moreover have "\<forall>x \<in> set cs1. \<forall>y \<in> set ns. \<not> qualifyingPair x y"
            using * dead ns by auto
          moreover have "\<forall>y \<in> set (n # ns1). \<forall>x \<in> set cs. \<not> qualifyingPair x y"
            using * dead by auto
          ultimately have "\<exists>cs1 cs2 ns1 ns2. cs = cs1 @ a # cs2 \<and> ns = ns1 @ b # ns2 \<and> qualifyingPair a b \<and>
                (\<forall>x \<in> set cs1. \<forall>y \<in> set ns. \<not> qualifyingPair x y) \<and>
                (\<forall>y \<in> set ns1. \<forall>x \<in> set cs. \<not> qualifyingPair x y)"
            using *(1,3) by blast
          then show ?thesis using eq Inr r by simp
        qed
      next
        case miss2
        have eq: "overlapLoop cs ns = overlapLoop cq ns"
          using miss2 by (simp add: cs ns overlapLoop_Cons_Cons REQUIRED_QUIET_WINDOW_def)
        have dead: "\<forall>y \<in> set ns. \<not> qualifyingPair c y"
          using miss2 n_le by (fastforce simp: qualifyingPair_def)
        have ih: "case overlapLoop cq ns of
           Inr (c, n) \<Rightarrow>
             (\<exists>cs1 cs2 ns1 ns2. cq = cs1 @ c # cs2 \<and> ns = ns1 @ n # ns2 \<and> qualifyingPair c n \<and>
                (\<forall>x \<in> set cs1. \<forall>y \<in> set ns. \<not> qualifyingPair x y) \<and>
                (\<forall>y \<in> set ns1. \<forall>x \<in> set cq. \<not> qualifyingPair x y))
         | Inl _ \<Rightarrow> (\<forall>x \<in> set cq. \<forall>y \<in> set ns. \<not> qualifyingPair x y)"
          using less.hyps [of cq ns] less.prems cs by simp
        show ?thesis
        proof (cases "overlapLoop cq ns")
          case (Inl s)
          then show ?thesis using ih dead eq cs by auto
        next
          case (Inr r)
          obtain a b where r: "r = (a, b)" by (cases r)
          from ih Inr r obtain cs1 cs2 ns1 ns2 where
            *: "cq = cs1 @ a # cs2" "ns = ns1 @ b # ns2" "qualifyingPair a b"
               "\<forall>x \<in> set cs1. \<forall>y \<in> set ns. \<not> qualifyingPair x y"
               "\<forall>y \<in> set ns1. \<forall>x \<in> set cq. \<not> qualifyingPair x y"
            by auto
          have "cs = (c # cs1) @ a # cs2" using * cs by simp
          moreover have "\<forall>y \<in> set ns1. \<forall>x \<in> set cs. \<not> qualifyingPair x y"
            using * dead cs by auto
          moreover have "\<forall>x \<in> set (c # cs1). \<forall>y \<in> set ns. \<not> qualifyingPair x y"
            using * dead by auto
          ultimately have "\<exists>cs1 cs2 ns1 ns2. cs = cs1 @ a # cs2 \<and> ns = ns1 @ b # ns2 \<and> qualifyingPair a b \<and>
                (\<forall>x \<in> set cs1. \<forall>y \<in> set ns. \<not> qualifyingPair x y) \<and>
                (\<forall>y \<in> set ns1. \<forall>x \<in> set cs. \<not> qualifyingPair x y)"
            using *(2,3) by blast
          then show ?thesis using eq Inr r by simp
        qed
      qed
    qed
  qed
qed

text \<open>
  With both lists sorted by start, the pair the loop returns is the first of each list
  that is in any qualifying pair; the loop exits without a pair only when no pair
  qualifies. Whatever the lists, a returned pair is in the lists and qualifies, and the
  loop exits with a cursor exhausted.
\<close>

lemma overlapLoop_earliest:
  assumes "sorted (map start cs)" "sorted (map start ns)"
  shows "case overlapLoop cs ns of
           Inr (c, n) \<Rightarrow>
             (\<exists>i j. i < length cs \<and> j < length ns \<and> c = cs ! i \<and> n = ns ! j \<and>
                qualifyingPair (cs ! i) (ns ! j) \<and>
                (\<forall>i' j'. i' < length cs \<and> j' < length ns \<and> qualifyingPair (cs ! i') (ns ! j')
                   \<longrightarrow> i \<le> i' \<and> j \<le> j' \<and>
                       start (cs ! i) \<le> start (cs ! i') \<and> start (ns ! j) \<le> start (ns ! j')))
         | Inl _ \<Rightarrow>
             (\<forall>i' j'. i' < length cs \<and> j' < length ns \<longrightarrow> \<not> qualifyingPair (cs ! i') (ns ! j'))"
proof (cases "overlapLoop cs ns")
  case (Inl s)
  then have "\<forall>x \<in> set cs. \<forall>y \<in> set ns. \<not> qualifyingPair x y"
    using overlapLoop_prefixes [OF assms] by simp
  then show ?thesis using Inl by simp
next
  case (Inr r)
  obtain c n where r: "r = (c, n)" by (cases r)
  from overlapLoop_prefixes [OF assms] Inr r obtain cs1 cs2 ns1 ns2 where
    *: "cs = cs1 @ c # cs2" "ns = ns1 @ n # ns2" "qualifyingPair c n"
       "\<forall>x \<in> set cs1. \<forall>y \<in> set ns. \<not> qualifyingPair x y"
       "\<forall>y \<in> set ns1. \<forall>x \<in> set cs. \<not> qualifyingPair x y"
    by auto
  let ?i = "length cs1" and ?j = "length ns1"
  have i: "?i < length cs" "cs ! ?i = c" and j: "?j < length ns" "ns ! ?j = n"
    using *(1,2) by simp_all
  have least: "?i \<le> i' \<and> ?j \<le> j' \<and>
      start (cs ! ?i) \<le> start (cs ! i') \<and> start (ns ! ?j) \<le> start (ns ! j')"
    if "i' < length cs" "j' < length ns" "qualifyingPair (cs ! i') (ns ! j')" for i' j'
  proof -
    have "\<not> i' < ?i"
    proof
      assume "i' < ?i"
      then have "cs ! i' \<in> set cs1" using *(1) by (simp add: nth_append)
      moreover have "ns ! j' \<in> set ns" using that(2) by simp
      ultimately show False using *(4) that(3) by blast
    qed
    moreover have "\<not> j' < ?j"
    proof
      assume "j' < ?j"
      then have "ns ! j' \<in> set ns1" using *(2) by (simp add: nth_append)
      moreover have "cs ! i' \<in> set cs" using that(1) by simp
      ultimately show False using *(5) that(3) by blast
    qed
    ultimately have le: "?i \<le> i'" "?j \<le> j'" by simp_all
    have "map start cs ! ?i \<le> map start cs ! i'"
      using assms(1) le(1) that(1) by (simp only: sorted_nth_mono length_map)
    moreover have "map start ns ! ?j \<le> map start ns ! j'"
      using assms(2) le(2) that(2) by (simp only: sorted_nth_mono length_map)
    ultimately show ?thesis using le that(1,2) i(1) j(1) by simp
  qed
  have "\<exists>i j. i < length cs \<and> j < length ns \<and> c = cs ! i \<and> n = ns ! j \<and>
                qualifyingPair (cs ! i) (ns ! j) \<and>
                (\<forall>i' j'. i' < length cs \<and> j' < length ns \<and> qualifyingPair (cs ! i') (ns ! j')
                   \<longrightarrow> i \<le> i' \<and> j \<le> j' \<and>
                       start (cs ! i) \<le> start (cs ! i') \<and> start (ns ! j) \<le> start (ns ! j'))"
    apply (rule exI [of _ ?i], rule exI [of _ ?j])
    using i j *(3) least by blast
  then show ?thesis using Inr r by simp
qed


lemma overlapLoop_Inl:
  "overlapLoop cs ns = Inl (c, n) \<Longrightarrow>
     (c = None \<or> n = None) \<and> (c = None \<and> n = None \<longrightarrow> cs = [] \<and> ns = []) \<and>
     (\<forall>x. c = Some x \<longrightarrow> x \<in> set cs) \<and> (\<forall>y. n = Some y \<longrightarrow> y \<in> set ns)"
proof (induction "length cs + length ns" arbitrary: cs ns rule: less_induct)
  case less
  show ?case
  proof (cases cs)
    case Nil
    then show ?thesis using less.prems by (auto simp: overlapLoop_Nil shift_def split: list.splits)
  next
    case cs: (Cons c0 cq)
    show ?thesis
    proof (cases ns)
      case Nil
      then show ?thesis using less.prems cs by (auto simp: overlapLoop_Cons_Nil)
    next
      case ns: (Cons n0 nq)
      consider (hit) "qualifyingPair c0 n0"
        | (miss1) "\<not> qualifyingPair c0 n0" "start c0 \<ge> start n0"
        | (miss2) "\<not> qualifyingPair c0 n0" "\<not> start c0 \<ge> start n0"
        by blast
      then show ?thesis
      proof cases
        case hit
        then have "overlapLoop cs ns = Inr (c0, n0)"
          by (auto simp: cs ns overlapLoop_Cons_Cons REQUIRED_QUIET_WINDOW_def qualifyingPair_def
              split: if_splits)
        then show ?thesis using less.prems by simp
      next
        case miss1
        then have "overlapLoop cs ns = overlapLoop cs nq"
          by (simp add: cs ns overlapLoop_Cons_Cons REQUIRED_QUIET_WINDOW_def qualifyingPair_def)
        then have "(c = None \<or> n = None) \<and> (c = None \<and> n = None \<longrightarrow> cs = [] \<and> nq = []) \<and>
            (\<forall>x. c = Some x \<longrightarrow> x \<in> set cs) \<and> (\<forall>y. n = Some y \<longrightarrow> y \<in> set nq)"
          using less.hyps [of cs nq] less.prems ns by simp
        then show ?thesis using ns cs by auto
      next
        case miss2
        then have "overlapLoop cs ns = overlapLoop cq ns"
          by (simp add: cs ns overlapLoop_Cons_Cons REQUIRED_QUIET_WINDOW_def qualifyingPair_def)
        then have "(c = None \<or> n = None) \<and> (c = None \<and> n = None \<longrightarrow> cq = [] \<and> ns = []) \<and>
            (\<forall>x. c = Some x \<longrightarrow> x \<in> set cq) \<and> (\<forall>y. n = Some y \<longrightarrow> y \<in> set ns)"
          using less.hyps [of cq ns] less.prems cs by simp
        then show ?thesis using ns cs by auto
      qed
    qed
  qed
qed

text \<open>
  \<^verbatim>\<open>findOverlappingQuietPeriods\<close> in terms of the loop on the two filtered lists, and
  one turn of the loop in terms of the rule of the specification.
\<close>

lemma findOverlappingQuietPeriods_loop:
  "findOverlappingQuietPeriods NR tasks recs tab =
     (case overlapLoop
        (filter (isLongEnoughQuietPeriod
                  (map_option (\<lambda>fmp. fmp / 1000) (firstMeaningfulPaint (timestamps tab))))
           (findCPUQuietPeriods tasks tab))
        (filter (isLongEnoughQuietPeriod
                  (map_option (\<lambda>fmp. fmp / 1000) (firstMeaningfulPaint (timestamps tab))))
           (findNetworkQuietPeriods NR recs tab)) of
        Inr (c, n) \<Rightarrow>
          Inr \<lparr>cpuQuietPeriod = c, networkQuietPeriod = n,
               cpuQuietPeriods =
                 filter (isLongEnoughQuietPeriod
                          (map_option (\<lambda>fmp. fmp / 1000) (firstMeaningfulPaint (timestamps tab))))
                   (findCPUQuietPeriods tasks tab),
               networkQuietPeriods =
                 filter (isLongEnoughQuietPeriod
                          (map_option (\<lambda>fmp. fmp / 1000) (firstMeaningfulPaint (timestamps tab))))
                   (findNetworkQuietPeriods NR recs tab)\<rparr>
      | Inl (c, n) \<Rightarrow>
          Inl (if c \<noteq> None then NO_TTI_NETWORK_IDLE_PERIOD else NO_TTI_CPU_IDLE_PERIOD))"
  by (simp add: findOverlappingQuietPeriods_def Let_def)

lemma whileCandidates_step:
  "whileCandidates (Some c) cq (Some n) nq =
     (if qualifyingPair c n then Inr (c, n)
      else if start c \<ge> start n
           then whileCandidates (Some c) cq (fst (shift nq)) (snd (shift nq))
           else whileCandidates (fst (shift cq)) (snd (shift cq)) (Some n) nq)"
  by (simp add: qualifyingPair_def REQUIRED_QUIET_WINDOW_def)

text \<open>The filter with the constant and the option unfolded.\<close>

lemma filter_isLongEnoughQuietPeriod:
  "filter (isLongEnoughQuietPeriod (Some FMP)) periods =
   filter (\<lambda>p. end' p - start p \<ge> 5000 \<and> end' p > FMP + 5000) periods"
  by (rule filter_cong) (auto simp: isLongEnoughQuietPeriod_def REQUIRED_QUIET_WINDOW_def)

text \<open>What a returned metric says about the run that made it.\<close>

lemma computeObservedMetric_Inr:
  assumes "computeObservedMetric NR TP data = Inr metric"
  shows "\<exists>info fmp dcl.
           findOverlappingQuietPeriods NR (filter (\<lambda>event. duration event \<ge> 50) (TP (traceOfTab data)))
             (networkRecords data) (traceOfTab data) = Inr info \<and>
           firstMeaningfulPaint (timestamps (traceOfTab data)) = Some fmp \<and> fmp \<noteq> 0 \<and>
           domContentLoaded (timestamps (traceOfTab data)) = Some dcl \<and> dcl \<noteq> 0 \<and>
           metric = \<lparr>timing =
                       (max (start (cpuQuietPeriod info)) (max (fmp / 1000) (dcl / 1000)) * 1000
                        - navigationStart (timestamps (traceOfTab data))) / 1000,
                     timestamp =
                       max (start (cpuQuietPeriod info)) (max (fmp / 1000) (dcl / 1000)) * 1000\<rparr>"
  using assms
  by (auto simp: computeObservedMetric_def falsy_def Let_def
      split: if_splits sum.splits option.splits)

section \<open>Claims on the CPU quiet periods\<close>

text \<open>
  Claim C2, as amended. With no long task the only period is \<open>[0, traceEnd / 1000]\<close>.
  Otherwise the periods are, in this order: from 0 to the start of the first task, for
  each pair of consecutive tasks the gap from the end of the first to the start of the
  second, and from the end of the last task to \<open>traceEnd / 1000\<close>; here every start
  and end of a task is shifted by \<open>navigationStart / 1000\<close>. Nothing is assumed on the
  order of the tasks.
\<close>

theorem findCPUQuietPeriods_periods:
  "findCPUQuietPeriods tasks tab =
     (if tasks = [] then [\<lparr>start = 0, end' = traceEnd (timestamps tab) / 1000\<rparr>]
      else
        \<lparr>start = 0, end' = start (hd tasks) + navigationStart (timestamps tab) / 1000\<rparr> #
        map (\<lambda>i. \<lparr>start = end' (tasks ! i) + navigationStart (timestamps tab) / 1000,
                   end' = start (tasks ! (i + 1)) + navigationStart (timestamps tab) / 1000\<rparr>)
          [0 ..< length tasks - 1] @
        [\<lparr>start = end' (last tasks) + navigationStart (timestamps tab) / 1000,
          end' = traceEnd (timestamps tab) / 1000\<rparr>])"
proof (cases "tasks = []")
  case True
  then show ?thesis by (simp add: findCPUQuietPeriods_def)
next
  case False
  then show ?thesis using findCPUQuietPeriods_nonempty [OF False, of tab] by simp
qed

text \<open>
  Claim C2 as it is written leaves the shift out. With the navigation start at
  1000000 microseconds and the single task \<open>[3000, 3100]\<close>, the periods are
  \<open>[0, 4000]\<close> and \<open>[4100, 10000]\<close>, not \<open>[0, 3000]\<close> and \<open>[3100, 10000]\<close>.
\<close>

theorem findCPUQuietPeriods_offset_counterexample:
  "findCPUQuietPeriods [\<lparr>start = 3000, end' = 3100\<rparr>]
     \<lparr>timestamps = \<lparr>navigationStart = 1000000, firstMeaningfulPaint = Some 3000000,
        domContentLoaded = Some 3500000, traceEnd = 10000000\<rparr>\<rparr>
   = [\<lparr>start = 0, end' = 4000\<rparr>, \<lparr>start = 4100, end' = 10000\<rparr>]
   \<and> findCPUQuietPeriods [\<lparr>start = 3000, end' = 3100\<rparr>]
     \<lparr>timestamps = \<lparr>navigationStart = 1000000, firstMeaningfulPaint = Some 3000000,
        domContentLoaded = Some 3500000, traceEnd = 10000000\<rparr>\<rparr>
   \<noteq> [\<lparr>start = 0, end' = 3000\<rparr>, \<lparr>start = 3100, end' = 10000\<rparr>]"
  by (simp add: findCPUQuietPeriods_def forEachTask_def)

text \<open>
  Claim C7, as amended. Let every long task end no earlier than it starts, let each
  task end no later than every later task starts (so the list is sorted by start and
  its tasks do not overlap), and let every task, shifted by \<open>navigationStart / 1000\<close>,
  lie between 0 and \<open>traceEnd / 1000\<close>. Then the CPU quiet periods are sorted by
  start, each period ends no later than every later period starts, and the union of
  the periods and of the shifted tasks is exactly the interval from 0 to
  \<open>traceEnd / 1000\<close>.
\<close>

theorem findCPUQuietPeriods_partition:
  fixes tasks :: "'a TimePeriod_scheme list"
  assumes wf: "list_all (\<lambda>t. start t \<le> end' t) tasks"
    and ordered: "sorted_wrt (\<lambda>s t. end' s \<le> start t) tasks"
    and inside: "list_all (\<lambda>t. 0 \<le> start t + navigationStart (timestamps tab) / 1000 \<and>
                   end' t + navigationStart (timestamps tab) / 1000 \<le> traceEnd (timestamps tab) / 1000)
                   tasks"
  shows "sorted (map start (findCPUQuietPeriods tasks tab)) \<and>
         sorted_wrt (\<lambda>p q. end' p \<le> start q) (findCPUQuietPeriods tasks tab) \<and>
         (\<Union>p \<in> set (findCPUQuietPeriods tasks tab). {start p .. end' p}) \<union>
         (\<Union>t \<in> set tasks. {start t + navigationStart (timestamps tab) / 1000 ..
                                end' t + navigationStart (timestamps tab) / 1000})
         = {0 .. traceEnd (timestamps tab) / 1000}"
proof -
  let ?nav = "navigationStart (timestamps tab) / 1000"
  let ?te = "traceEnd (timestamps tab) / 1000"
  let ?ps = "findCPUQuietPeriods tasks tab"
  have wf': "\<forall>t \<in> set tasks. start t \<le> end' t"
    using wf by (simp add: list_all_iff)
  have gap: "\<forall>i. i + 1 < length tasks \<longrightarrow> end' (tasks ! i) \<le> start (tasks ! (i + 1))"
    using ordered by (simp add: sorted_wrt_iff_nth_less)
  have lo: "tasks \<noteq> [] \<longrightarrow> 0 \<le> start (hd tasks) + ?nav"
    using inside by (auto simp: list_all_iff)
  have hi: "tasks \<noteq> [] \<longrightarrow> end' (last tasks) + ?nav \<le> ?te"
    using inside by (auto simp: list_all_iff)
  have 1: "sorted (map start ?ps)"
    using wf' gap lo by (rule findCPUQuietPeriods_sorted)
  have 2: "sorted_wrt (\<lambda>p q. end' p \<le> start q) ?ps"
    unfolding sorted_wrt_iff_nth_less
    using findCPUQuietPeriods_disjoint [OF wf' gap] by blast
  have 3: "(\<Union>p \<in> set ?ps. {start p .. end' p}) \<union>
           (\<Union>t \<in> set tasks. {start t + ?nav .. end' t + ?nav}) = {0 .. ?te}"
    (is "?L = ?R")
  proof (rule set_eqI)
    fix x
    show "x \<in> ?L \<longleftrightarrow> x \<in> ?R"
    proof
      assume "x \<in> ?L"
      then consider p where "p \<in> set ?ps" "start p \<le> x" "x \<le> end' p"
        | t where "t \<in> set tasks" "start t + ?nav \<le> x" "x \<le> end' t + ?nav"
        by auto
      then show "x \<in> ?R"
      proof cases
        case 1
        then show ?thesis
          using findCPUQuietPeriods_within [OF wf' gap lo hi, of p] by simp
      next
        case 2
        then show ?thesis
          using tasks_within [OF wf' gap lo hi, of t] by simp
      qed
    next
      assume "x \<in> ?R"
      then have "0 \<le> x" "x \<le> ?te" by simp_all
      then show "x \<in> ?L"
        using findCPUQuietPeriods_covers [of x tab tasks] by auto
    qed
  qed
  show ?thesis using 1 2 3 by blast
qed

text \<open>The theorem at two tasks and a navigation start of one second.\<close>

theorem findCPUQuietPeriods_partition_witness:
  "list_all (\<lambda>t. start t \<le> end' t) [\<lparr>start = 3000, end' = 3100\<rparr>, \<lparr>start = 5000, end' = 5200\<rparr>] \<and>
   sorted_wrt (\<lambda>s t. end' s \<le> start t)
     [\<lparr>start = 3000, end' = 3100\<rparr>, \<lparr>start = 5000, end' = 5200\<rparr>] \<and>
   findCPUQuietPeriods [\<lparr>start = 3000, end' = 3100\<rparr>, \<lparr>start = 5000, end' = 5200\<rparr>]
     \<lparr>timestamps = \<lparr>navigationStart = 1000000, firstMeaningfulPaint = Some 3000000,
        domContentLoaded = Some 3500000, traceEnd = 10000000\<rparr>\<rparr>
   = [\<lparr>start = 0, end' = 4000\<rparr>, \<lparr>start = 4100, end' = 6000\<rparr>, \<lparr>start = 6200, end' = 10000\<rparr>] \<and>
   {0 .. 4000} \<union> ({4100 .. 6000} \<union> {6200 .. 10000}) \<union> ({4000 .. 4100} \<union> {6000 .. 6200})
   = {0 .. (10000::real)}"
proof -
  let ?tasks = "[\<lparr>start = 3000, end' = 3100\<rparr>, \<lparr>start = 5000, end' = 5200\<rparr>]"
  let ?tab = "\<lparr>timestamps = \<lparr>navigationStart = 1000000, firstMeaningfulPaint = Some 3000000,
        domContentLoaded = Some 3500000, traceEnd = 10000000\<rparr>\<rparr>"
  have ps: "findCPUQuietPeriods ?tasks ?tab =
      [\<lparr>start = 0, end' = 4000\<rparr>, \<lparr>start = 4100, end' = 6000\<rparr>, \<lparr>start = 6200, end' = 10000\<rparr>]"
    by (simp add: findCPUQuietPeriods_def forEachTask_def)
  have wf: "list_all (\<lambda>t. start t \<le> end' t) ?tasks" by simp
  have ordered: "sorted_wrt (\<lambda>s t. end' s \<le> start t) ?tasks" by simp
  have inside: "list_all (\<lambda>t. 0 \<le> start t + navigationStart (timestamps ?tab) / 1000 \<and>
      end' t + navigationStart (timestamps ?tab) / 1000 \<le> traceEnd (timestamps ?tab) / 1000) ?tasks"
    by simp
  show ?thesis
    using findCPUQuietPeriods_partition [OF wf ordered inside] wf ordered ps
    by simp
qed

text \<open>
  Claim C7 as it is written fails twice. The tasks are relative to the navigation
  start and the periods are not: with the navigation start at one second and the
  task \<open>[3000, 3100]\<close>, the instant 4050 is in the trace and in neither period nor
  in the task. And nothing keeps a task inside the trace: with the task
  \<open>[3000, 20000]\<close> and a trace that ends at 10000, the instant 15000 is in the task
  and not in the trace.
\<close>

theorem findCPUQuietPeriods_partition_counterexample:
  "findCPUQuietPeriods [\<lparr>start = 3000, end' = 3100\<rparr>]
     \<lparr>timestamps = \<lparr>navigationStart = 1000000, firstMeaningfulPaint = Some 3000000,
        domContentLoaded = Some 3500000, traceEnd = 10000000\<rparr>\<rparr>
   = [\<lparr>start = 0, end' = 4000\<rparr>, \<lparr>start = 4100, end' = 10000\<rparr>] \<and>
   (4050::real) \<in> {0 .. 10000} \<and>
   (4050::real) \<notin> {0 .. 4000} \<union> {4100 .. 10000} \<union> {3000 .. 3100} \<and>
   findCPUQuietPeriods [\<lparr>start = 3000, end' = 20000\<rparr>]
     \<lparr>timestamps = \<lparr>navigationStart = 0, firstMeaningfulPaint = Some 2000000,
        domContentLoaded = Some 2500000, traceEnd = 10000000\<rparr>\<rparr>
   = [\<lparr>start = 0, end' = 3000\<rparr>, \<lparr>start = 20000, end' = 10000\<rparr>] \<and>
   (15000::real) \<in> {0 .. 3000} \<union> {20000 .. 10000} \<union> {3000 .. 20000} \<and>
   (15000::real) \<notin> {0 .. 10000}"
  by (simp add: findCPUQuietPeriods_def forEachTask_def)

section \<open>Claims on the overlap of the quiet periods\<close>

text \<open>
  Claim C1. Let \<open>cs\<close> and \<open>ns\<close> be the filtered CPU and network quiet periods, both
  sorted by start. When \<^verbatim>\<open>findOverlappingQuietPeriods\<close> returns, the pair it returns
  qualifies under the rule of the specification (with \<open>cpu.start \<ge> net.start\<close> the
  network period ends at or after \<open>cpu.start + 5000\<close>, otherwise the CPU period ends
  at or after \<open>net.start + 5000\<close>) and is the earliest one: every qualifying pair has
  its CPU period and its network period at the same or a later index, hence with the
  same or a later start. When it throws, no pair of the two lists qualifies. One turn
  of the loop returns the two candidates when they qualify, and otherwise shifts the
  network queue when \<open>cpu.start \<ge> net.start\<close> and the CPU queue when not; on equal
  starts the test is the one of the first case.
\<close>

theorem findOverlappingQuietPeriods_earliest:
  assumes cs: "cs = filter (isLongEnoughQuietPeriod
                  (map_option (\<lambda>fmp. fmp / 1000) (firstMeaningfulPaint (timestamps tab))))
                  (findCPUQuietPeriods tasks tab)"
    and ns: "ns = filter (isLongEnoughQuietPeriod
                  (map_option (\<lambda>fmp. fmp / 1000) (firstMeaningfulPaint (timestamps tab))))
                  (findNetworkQuietPeriods NR recs tab)"
    and sorted_cs: "sorted (map start cs)"
    and sorted_ns: "sorted (map start ns)"
  shows "(case findOverlappingQuietPeriods NR tasks recs tab of
            Inr info \<Rightarrow>
              (\<exists>i j. i < length cs \<and> j < length ns \<and>
                 cpuQuietPeriod info = cs ! i \<and> networkQuietPeriod info = ns ! j \<and>
                 qualifyingPair (cs ! i) (ns ! j) \<and>
                 (\<forall>i' j'. i' < length cs \<and> j' < length ns \<and> qualifyingPair (cs ! i') (ns ! j')
                    \<longrightarrow> i \<le> i' \<and> j \<le> j' \<and>
                        start (cs ! i) \<le> start (cs ! i') \<and> start (ns ! j) \<le> start (ns ! j')))
          | Inl e \<Rightarrow>
              (\<forall>i' j'. i' < length cs \<and> j' < length ns \<longrightarrow> \<not> qualifyingPair (cs ! i') (ns ! j')))
         \<and> (\<forall>c cq n nq.
               whileCandidates (Some c) cq (Some n) nq =
                 (if qualifyingPair c n then Inr (c, n)
                  else if start c \<ge> start n
                       then whileCandidates (Some c) cq (fst (shift nq)) (snd (shift nq))
                       else whileCandidates (fst (shift cq)) (snd (shift cq)) (Some n) nq))
         \<and> (\<forall>c n. start c = start n \<longrightarrow>
               (qualifyingPair c n \<longleftrightarrow> end' n \<ge> start c + 5000))"
proof -
  have loop: "findOverlappingQuietPeriods NR tasks recs tab =
     (case overlapLoop cs ns of
        Inr (c, n) \<Rightarrow>
          Inr \<lparr>cpuQuietPeriod = c, networkQuietPeriod = n,
               cpuQuietPeriods = cs, networkQuietPeriods = ns\<rparr>
      | Inl (c, n) \<Rightarrow>
          Inl (if c \<noteq> None then NO_TTI_NETWORK_IDLE_PERIOD else NO_TTI_CPU_IDLE_PERIOD))"
    unfolding cs ns by (rule findOverlappingQuietPeriods_loop)
  have 1: "case findOverlappingQuietPeriods NR tasks recs tab of
            Inr info \<Rightarrow>
              (\<exists>i j. i < length cs \<and> j < length ns \<and>
                 cpuQuietPeriod info = cs ! i \<and> networkQuietPeriod info = ns ! j \<and>
                 qualifyingPair (cs ! i) (ns ! j) \<and>
                 (\<forall>i' j'. i' < length cs \<and> j' < length ns \<and> qualifyingPair (cs ! i') (ns ! j')
                    \<longrightarrow> i \<le> i' \<and> j \<le> j' \<and>
                        start (cs ! i) \<le> start (cs ! i') \<and> start (ns ! j) \<le> start (ns ! j')))
          | Inl e \<Rightarrow>
              (\<forall>i' j'. i' < length cs \<and> j' < length ns \<longrightarrow> \<not> qualifyingPair (cs ! i') (ns ! j'))"
  proof (cases "overlapLoop cs ns")
    case (Inl s)
    obtain c n where "s = (c, n)" by (cases s)
    then show ?thesis
      using overlapLoop_earliest [OF sorted_cs sorted_ns] Inl loop by simp
  next
    case (Inr r)
    obtain c n where "r = (c, n)" by (cases r)
    then show ?thesis
      using overlapLoop_earliest [OF sorted_cs sorted_ns] Inr loop by simp
  qed
  have 2: "\<forall>c n. start c = start n \<longrightarrow> (qualifyingPair c n \<longleftrightarrow> end' n \<ge> start c + 5000)"
    by (simp add: qualifyingPair_def)
  show ?thesis using 1 2 whileCandidates_step by blast
qed


text \<open>
  The theorem at one long task and two network quiet periods: the first network period
  fails the test and is left behind, the second one matches.
\<close>

theorem findOverlappingQuietPeriods_earliest_witness:
  "sorted (map start [\<lparr>start = 3100, end' = 20000\<rparr>]) \<and>
   sorted (map start [\<lparr>start = 0, end' = 7000\<rparr>, \<lparr>start = 8000, end' = 20000\<rparr>]) \<and>
   findOverlappingQuietPeriods
     (\<lambda>(records :: unit) allowed traceEndTsInMs.
        [\<lparr>start = 0, end' = 7000\<rparr>, \<lparr>start = 8000, end' = 20000\<rparr>])
     [\<lparr>start = 3000, end' = 3100\<rparr>] ()
     \<lparr>timestamps = \<lparr>navigationStart = 0, firstMeaningfulPaint = Some 1000000,
        domContentLoaded = Some 1500000, traceEnd = 20000000\<rparr>\<rparr>
   = Inr \<lparr>cpuQuietPeriod = \<lparr>start = 3100, end' = 20000\<rparr>,
          networkQuietPeriod = \<lparr>start = 8000, end' = 20000\<rparr>,
          cpuQuietPeriods = [\<lparr>start = 3100, end' = 20000\<rparr>],
          networkQuietPeriods = [\<lparr>start = 0, end' = 7000\<rparr>, \<lparr>start = 8000, end' = 20000\<rparr>]\<rparr> \<and>
   qualifyingPair \<lparr>start = 3100, end' = 20000\<rparr> \<lparr>start = 8000, end' = 20000\<rparr> \<and>
   \<not> qualifyingPair \<lparr>start = 3100, end' = 20000\<rparr> \<lparr>start = 0, end' = 7000\<rparr>"
proof -
  let ?NR = "\<lambda>(records :: unit) (allowed :: nat) (traceEndTsInMs :: real).
        [\<lparr>start = 0, end' = 7000\<rparr>, \<lparr>start = 8000, end' = 20000\<rparr>]"
  let ?tasks = "[\<lparr>start = 3000, end' = 3100\<rparr>]"
  let ?tab = "\<lparr>timestamps = \<lparr>navigationStart = 0, firstMeaningfulPaint = Some 1000000,
        domContentLoaded = Some 1500000, traceEnd = 20000000\<rparr>\<rparr>"
  let ?cs = "[\<lparr>start = 3100, end' = 20000\<rparr>]"
  let ?ns = "[\<lparr>start = 0, end' = 7000\<rparr>, \<lparr>start = 8000, end' = 20000\<rparr>]"
  have cs: "?cs = filter (isLongEnoughQuietPeriod
                  (map_option (\<lambda>fmp. fmp / 1000) (firstMeaningfulPaint (timestamps ?tab))))
                  (findCPUQuietPeriods ?tasks ?tab)"
    by (simp add: findCPUQuietPeriods_def forEachTask_def isLongEnoughQuietPeriod_def
        REQUIRED_QUIET_WINDOW_def)
  have ns: "?ns = filter (isLongEnoughQuietPeriod
                  (map_option (\<lambda>fmp. fmp / 1000) (firstMeaningfulPaint (timestamps ?tab))))
                  (findNetworkQuietPeriods ?NR () ?tab)"
    by (simp add: findNetworkQuietPeriods_def isLongEnoughQuietPeriod_def
        REQUIRED_QUIET_WINDOW_def)
  have sorted_cs: "sorted (map start ?cs)" by simp
  have sorted_ns: "sorted (map start ?ns)" by simp
  have run: "findOverlappingQuietPeriods ?NR ?tasks () ?tab =
      Inr \<lparr>cpuQuietPeriod = \<lparr>start = 3100, end' = 20000\<rparr>,
          networkQuietPeriod = \<lparr>start = 8000, end' = 20000\<rparr>,
          cpuQuietPeriods = ?cs, networkQuietPeriods = ?ns\<rparr>"
    by (simp add: findOverlappingQuietPeriods_def overlapLoop_def shift_def
        findCPUQuietPeriods_def forEachTask_def findNetworkQuietPeriods_def
        isLongEnoughQuietPeriod_def REQUIRED_QUIET_WINDOW_def)
  show ?thesis
    using findOverlappingQuietPeriods_earliest [OF cs ns sorted_cs sorted_ns] run
    by (simp add: qualifyingPair_def)
qed

text \<open>
  Claim C4. When the loop on the two filtered lists ends without a pair, one of the two
  candidates is \<^verbatim>\<open>undefined\<close>. If it is the network candidate, and a CPU candidate
  is left, \<^verbatim>\<open>findOverlappingQuietPeriods\<close> throws \<^verbatim>\<open>NO_TTI_NETWORK_IDLE_PERIOD\<close>; if
  the CPU candidate is \<^verbatim>\<open>undefined\<close> it throws \<^verbatim>\<open>NO_TTI_CPU_IDLE_PERIOD\<close>. In
  both cases nothing is returned. Both candidates are \<^verbatim>\<open>undefined\<close> only when both
  filtered lists are empty, and a candidate that is left is a period of its list.
\<close>

theorem findOverlappingQuietPeriods_errors:
  assumes cs: "cs = filter (isLongEnoughQuietPeriod
                  (map_option (\<lambda>fmp. fmp / 1000) (firstMeaningfulPaint (timestamps tab))))
                  (findCPUQuietPeriods tasks tab)"
    and ns: "ns = filter (isLongEnoughQuietPeriod
                  (map_option (\<lambda>fmp. fmp / 1000) (firstMeaningfulPaint (timestamps tab))))
                  (findNetworkQuietPeriods NR recs tab)"
    and exit: "overlapLoop cs ns = Inl (cpuCandidate, networkCandidate)"
  shows "(cpuCandidate = None \<or> networkCandidate = None) \<and>
         (networkCandidate = None \<and> cpuCandidate \<noteq> None \<longrightarrow>
            findOverlappingQuietPeriods NR tasks recs tab = Inl NO_TTI_NETWORK_IDLE_PERIOD) \<and>
         (cpuCandidate = None \<longrightarrow>
            findOverlappingQuietPeriods NR tasks recs tab = Inl NO_TTI_CPU_IDLE_PERIOD) \<and>
         (\<forall>info. findOverlappingQuietPeriods NR tasks recs tab \<noteq> Inr info) \<and>
         (cpuCandidate = None \<and> networkCandidate = None \<longrightarrow> cs = [] \<and> ns = []) \<and>
         (\<forall>c. cpuCandidate = Some c \<longrightarrow> c \<in> set cs) \<and>
         (\<forall>n. networkCandidate = Some n \<longrightarrow> n \<in> set ns)"
proof -
  have "findOverlappingQuietPeriods NR tasks recs tab =
      Inl (if cpuCandidate \<noteq> None then NO_TTI_NETWORK_IDLE_PERIOD else NO_TTI_CPU_IDLE_PERIOD)"
    using exit unfolding cs ns by (simp add: findOverlappingQuietPeriods_loop)
  then have "(networkCandidate = None \<and> cpuCandidate \<noteq> None \<longrightarrow>
            findOverlappingQuietPeriods NR tasks recs tab = Inl NO_TTI_NETWORK_IDLE_PERIOD) \<and>
         (cpuCandidate = None \<longrightarrow>
            findOverlappingQuietPeriods NR tasks recs tab = Inl NO_TTI_CPU_IDLE_PERIOD) \<and>
         (\<forall>info. findOverlappingQuietPeriods NR tasks recs tab \<noteq> Inr info)"
    by simp
  then show ?thesis using overlapLoop_Inl [OF exit] by blast
qed

text \<open>
  The theorem at a run that exhausts the network queue and at a run that exhausts the
  CPU queue.
\<close>

theorem findOverlappingQuietPeriods_errors_witness:
  "overlapLoop [\<lparr>start = 3100, end' = 20000\<rparr>] [\<lparr>start = 0, end' = 7000\<rparr>]
     = Inl (Some \<lparr>start = 3100, end' = 20000\<rparr>, None) \<and>
   findOverlappingQuietPeriods
     (\<lambda>(records :: unit) allowed traceEndTsInMs. [\<lparr>start = 0, end' = 7000\<rparr>])
     [\<lparr>start = 3000, end' = 3100\<rparr>] ()
     \<lparr>timestamps = \<lparr>navigationStart = 0, firstMeaningfulPaint = Some 1000000,
        domContentLoaded = Some 1500000, traceEnd = 20000000\<rparr>\<rparr>
   = Inl NO_TTI_NETWORK_IDLE_PERIOD \<and>
   overlapLoop [\<lparr>start = 3100, end' = 12000\<rparr>] [\<lparr>start = 8000, end' = 13000\<rparr>]
     = Inl (None, Some \<lparr>start = 8000, end' = 13000\<rparr>) \<and>
   findOverlappingQuietPeriods
     (\<lambda>(records :: unit) allowed traceEndTsInMs. [\<lparr>start = 8000, end' = 13000\<rparr>])
     [\<lparr>start = 3000, end' = 3100\<rparr>] ()
     \<lparr>timestamps = \<lparr>navigationStart = 0, firstMeaningfulPaint = Some 1000000,
        domContentLoaded = Some 1500000, traceEnd = 12000000\<rparr>\<rparr>
   = Inl NO_TTI_CPU_IDLE_PERIOD"
proof -
  let ?tasks = "[\<lparr>start = 3000, end' = 3100\<rparr>]"
  let ?NR1 = "\<lambda>(records :: unit) (allowed :: nat) (traceEndTsInMs :: real).
        [\<lparr>start = 0, end' = 7000\<rparr>]"
  let ?tab1 = "\<lparr>timestamps = \<lparr>navigationStart = 0, firstMeaningfulPaint = Some 1000000,
        domContentLoaded = Some 1500000, traceEnd = 20000000\<rparr>\<rparr>"
  let ?NR2 = "\<lambda>(records :: unit) (allowed :: nat) (traceEndTsInMs :: real).
        [\<lparr>start = 8000, end' = 13000\<rparr>]"
  let ?tab2 = "\<lparr>timestamps = \<lparr>navigationStart = 0, firstMeaningfulPaint = Some 1000000,
        domContentLoaded = Some 1500000, traceEnd = 12000000\<rparr>\<rparr>"
  have cs1: "[\<lparr>start = 3100, end' = 20000\<rparr>] = filter (isLongEnoughQuietPeriod
                  (map_option (\<lambda>fmp. fmp / 1000) (firstMeaningfulPaint (timestamps ?tab1))))
                  (findCPUQuietPeriods ?tasks ?tab1)"
    by (simp add: findCPUQuietPeriods_def forEachTask_def isLongEnoughQuietPeriod_def
        REQUIRED_QUIET_WINDOW_def)
  have ns1: "[\<lparr>start = 0, end' = 7000\<rparr>] = filter (isLongEnoughQuietPeriod
                  (map_option (\<lambda>fmp. fmp / 1000) (firstMeaningfulPaint (timestamps ?tab1))))
                  (findNetworkQuietPeriods ?NR1 () ?tab1)"
    by (simp add: findNetworkQuietPeriods_def isLongEnoughQuietPeriod_def
        REQUIRED_QUIET_WINDOW_def)
  have exit1: "overlapLoop [\<lparr>start = 3100, end' = 20000\<rparr>] [\<lparr>start = 0, end' = 7000\<rparr>]
     = Inl (Some \<lparr>start = 3100, end' = 20000\<rparr>, None)"
    by (simp add: overlapLoop_def shift_def REQUIRED_QUIET_WINDOW_def)
  have cs2: "[\<lparr>start = 3100, end' = 12000\<rparr>] = filter (isLongEnoughQuietPeriod
                  (map_option (\<lambda>fmp. fmp / 1000) (firstMeaningfulPaint (timestamps ?tab2))))
                  (findCPUQuietPeriods ?tasks ?tab2)"
    by (simp add: findCPUQuietPeriods_def forEachTask_def isLongEnoughQuietPeriod_def
        REQUIRED_QUIET_WINDOW_def)
  have ns2: "[\<lparr>start = 8000, end' = 13000\<rparr>] = filter (isLongEnoughQuietPeriod
                  (map_option (\<lambda>fmp. fmp / 1000) (firstMeaningfulPaint (timestamps ?tab2))))
                  (findNetworkQuietPeriods ?NR2 () ?tab2)"
    by (simp add: findNetworkQuietPeriods_def isLongEnoughQuietPeriod_def
        REQUIRED_QUIET_WINDOW_def)
  have exit2: "overlapLoop [\<lparr>start = 3100, end' = 12000\<rparr>] [\<lparr>start = 8000, end' = 13000\<rparr>]
     = Inl (None, Some \<lparr>start = 8000, end' = 13000\<rparr>)"
    by (simp add: overlapLoop_def shift_def REQUIRED_QUIET_WINDOW_def)
  show ?thesis
    using findOverlappingQuietPeriods_errors [OF cs1 ns1 exit1]
      findOverlappingQuietPeriods_errors [OF cs2 ns2 exit2] exit1 exit2
    by simp
qed



text \<open>
  Claim C10. If no CPU quiet period passes the filter, \<^verbatim>\<open>findOverlappingQuietPeriods\<close>
  throws \<^verbatim>\<open>NO_TTI_CPU_IDLE_PERIOD\<close>, whatever the network quiet periods are, also
  when none of them passes the filter.
\<close>

theorem findOverlappingQuietPeriods_no_cpu:
  assumes "filter (isLongEnoughQuietPeriod
             (map_option (\<lambda>fmp. fmp / 1000) (firstMeaningfulPaint (timestamps tab))))
             (findCPUQuietPeriods tasks tab) = []"
  shows "findOverlappingQuietPeriods NR tasks recs tab = Inl NO_TTI_CPU_IDLE_PERIOD"
  using assms by (simp add: findOverlappingQuietPeriods_loop overlapLoop_Nil)

text \<open>
  The theorem at a trace of four seconds, too short for any CPU quiet period, once with
  no network quiet period and once with one.
\<close>

theorem findOverlappingQuietPeriods_no_cpu_witness:
  "filter (isLongEnoughQuietPeriod (Some 1000))
     (findCPUQuietPeriods ([] :: TimePeriod list)
        \<lparr>timestamps = \<lparr>navigationStart = 0, firstMeaningfulPaint = Some 1000000,
           domContentLoaded = Some 1500000, traceEnd = 4000000\<rparr>\<rparr>) = [] \<and>
   findOverlappingQuietPeriods (\<lambda>(records :: unit) allowed traceEndTsInMs. [])
     ([] :: TimePeriod list) ()
     \<lparr>timestamps = \<lparr>navigationStart = 0, firstMeaningfulPaint = Some 1000000,
        domContentLoaded = Some 1500000, traceEnd = 4000000\<rparr>\<rparr>
   = Inl NO_TTI_CPU_IDLE_PERIOD \<and>
   findOverlappingQuietPeriods
     (\<lambda>(records :: unit) allowed traceEndTsInMs. [\<lparr>start = 0, end' = 20000\<rparr>])
     ([] :: TimePeriod list) ()
     \<lparr>timestamps = \<lparr>navigationStart = 0, firstMeaningfulPaint = Some 1000000,
        domContentLoaded = Some 1500000, traceEnd = 4000000\<rparr>\<rparr>
   = Inl NO_TTI_CPU_IDLE_PERIOD"
proof -
  let ?tab = "\<lparr>timestamps = \<lparr>navigationStart = 0, firstMeaningfulPaint = Some 1000000,
        domContentLoaded = Some 1500000, traceEnd = 4000000\<rparr>\<rparr>"
  have empty: "filter (isLongEnoughQuietPeriod
             (map_option (\<lambda>fmp. fmp / 1000) (firstMeaningfulPaint (timestamps ?tab))))
             (findCPUQuietPeriods ([] :: TimePeriod list) ?tab) = []"
    by (simp add: findCPUQuietPeriods_def isLongEnoughQuietPeriod_def REQUIRED_QUIET_WINDOW_def)
  show ?thesis
    using findOverlappingQuietPeriods_no_cpu [OF empty,
        of "\<lambda>(records :: unit) (allowed :: nat) (traceEndTsInMs :: real). []" "()"]
      findOverlappingQuietPeriods_no_cpu [OF empty,
        of "\<lambda>(records :: unit) (allowed :: nat) (traceEndTsInMs :: real).
              [\<lparr>start = 0, end' = 20000\<rparr>]" "()"]
      empty
    by simp
qed

text \<open>
  Claim C6. With the first meaningful paint at \<open>FMP\<close> milliseconds, filtering a list of
  periods with \<^verbatim>\<open>isLongEnoughQuietPeriod\<close> keeps, in their order, exactly the periods
  with \<open>end - start \<ge> 5000\<close> and \<open>end > FMP + 5000\<close>: a period shorter than 5000 ms
  or ending at or before \<open>FMP + 5000\<close> is removed, and a period with both conditions
  never is. The two lists that \<^verbatim>\<open>findOverlappingQuietPeriods\<close> returns are the CPU and
  the network quiet periods filtered so, with \<open>FMP\<close> the first meaningful paint of the
  trace divided by 1000.
\<close>

theorem isLongEnoughQuietPeriod_filter:
  "filter (isLongEnoughQuietPeriod (Some FMP)) periods =
     filter (\<lambda>p. end' p - start p \<ge> 5000 \<and> end' p > FMP + 5000) periods \<and>
   (p \<in> set (filter (isLongEnoughQuietPeriod (Some FMP)) periods) \<longleftrightarrow>
      p \<in> set periods \<and> end' p - start p \<ge> 5000 \<and> end' p > FMP + 5000) \<and>
   (findOverlappingQuietPeriods NR tasks recs tab = Inr info \<and>
    firstMeaningfulPaint (timestamps tab) = Some fmp \<longrightarrow>
      cpuQuietPeriods info =
        filter (\<lambda>p. end' p - start p \<ge> 5000 \<and> end' p > fmp / 1000 + 5000)
          (findCPUQuietPeriods tasks tab) \<and>
      networkQuietPeriods info =
        filter (\<lambda>p. end' p - start p \<ge> 5000 \<and> end' p > fmp / 1000 + 5000)
          (findNetworkQuietPeriods NR recs tab))"
proof -
  have 1: "p \<in> set (filter (isLongEnoughQuietPeriod (Some FMP)) periods) \<longleftrightarrow>
      p \<in> set periods \<and> end' p - start p \<ge> 5000 \<and> end' p > FMP + 5000"
    unfolding filter_isLongEnoughQuietPeriod by auto
  have 2: "cpuQuietPeriods info =
        filter (\<lambda>p. end' p - start p \<ge> 5000 \<and> end' p > fmp / 1000 + 5000)
          (findCPUQuietPeriods tasks tab) \<and>
      networkQuietPeriods info =
        filter (\<lambda>p. end' p - start p \<ge> 5000 \<and> end' p > fmp / 1000 + 5000)
          (findNetworkQuietPeriods NR recs tab)"
    if "findOverlappingQuietPeriods NR tasks recs tab = Inr info"
      "firstMeaningfulPaint (timestamps tab) = Some fmp"
    using that unfolding findOverlappingQuietPeriods_loop
    by (auto simp: filter_isLongEnoughQuietPeriod split: sum.splits prod.splits)
  show ?thesis using 1 2 filter_isLongEnoughQuietPeriod by blast
qed

text \<open>
  The theorem at five periods, of which one is too short, two end too early and one
  ends exactly at \<open>FMP + 5000\<close>, and at a run of \<^verbatim>\<open>findOverlappingQuietPeriods\<close>.
\<close>

theorem isLongEnoughQuietPeriod_filter_witness:
  "filter (isLongEnoughQuietPeriod (Some 2000))
     [\<lparr>start = 0, end' = 3000\<rparr>, \<lparr>start = 1000, end' = 7000\<rparr>, \<lparr>start = 3100, end' = 8000\<rparr>,
      \<lparr>start = 3100, end' = 8100\<rparr>, \<lparr>start = 2000, end' = 7001\<rparr>]
   = [\<lparr>start = 3100, end' = 8100\<rparr>, \<lparr>start = 2000, end' = 7001\<rparr>] \<and>
   findOverlappingQuietPeriods
     (\<lambda>(records :: unit) allowed traceEndTsInMs.
        [\<lparr>start = 0, end' = 7000\<rparr>, \<lparr>start = 8000, end' = 20000\<rparr>])
     [\<lparr>start = 3000, end' = 3100\<rparr>] ()
     \<lparr>timestamps = \<lparr>navigationStart = 0, firstMeaningfulPaint = Some 2000000,
        domContentLoaded = Some 2500000, traceEnd = 20000000\<rparr>\<rparr>
   = Inr \<lparr>cpuQuietPeriod = \<lparr>start = 3100, end' = 20000\<rparr>,
          networkQuietPeriod = \<lparr>start = 8000, end' = 20000\<rparr>,
          cpuQuietPeriods = [\<lparr>start = 3100, end' = 20000\<rparr>],
          networkQuietPeriods = [\<lparr>start = 8000, end' = 20000\<rparr>]\<rparr>"
proof -
  let ?NR = "\<lambda>(records :: unit) (allowed :: nat) (traceEndTsInMs :: real).
        [\<lparr>start = 0, end' = 7000\<rparr>, \<lparr>start = 8000, end' = 20000\<rparr>]"
  let ?tasks = "[\<lparr>start = 3000, end' = 3100\<rparr>]"
  let ?tab = "\<lparr>timestamps = \<lparr>navigationStart = 0, firstMeaningfulPaint = Some 2000000,
        domContentLoaded = Some 2500000, traceEnd = 20000000\<rparr>\<rparr>"
  let ?info = "\<lparr>cpuQuietPeriod = \<lparr>start = 3100, end' = 20000\<rparr>,
          networkQuietPeriod = \<lparr>start = 8000, end' = 20000\<rparr>,
          cpuQuietPeriods = [\<lparr>start = 3100, end' = 20000\<rparr>],
          networkQuietPeriods = [\<lparr>start = 8000, end' = 20000\<rparr>]\<rparr>"
  have run: "findOverlappingQuietPeriods ?NR ?tasks () ?tab = Inr ?info"
    by (simp add: findOverlappingQuietPeriods_def overlapLoop_def shift_def
        findCPUQuietPeriods_def forEachTask_def findNetworkQuietPeriods_def
        isLongEnoughQuietPeriod_def REQUIRED_QUIET_WINDOW_def)
  have fmp: "firstMeaningfulPaint (timestamps ?tab) = Some 2000000" by simp
  show ?thesis
    using isLongEnoughQuietPeriod_filter [of 2000
        "[\<lparr>start = 0, end' = 3000\<rparr>, \<lparr>start = 1000, end' = 7000\<rparr>, \<lparr>start = 3100, end' = 8000\<rparr>,
          \<lparr>start = 3100, end' = 8100\<rparr>, \<lparr>start = 2000, end' = 7001\<rparr>]"
        "\<lparr>start = 3100, end' = 8100\<rparr>" ?NR ?tasks "()" ?tab ?info 2000000] run fmp
    by simp
qed

section \<open>Claims on the metric\<close>

text \<open>
  Claim C3, as amended. When \<^verbatim>\<open>computeObservedMetric\<close> returns, the overlap of the
  quiet periods was found, both timestamps are present, and with \<open>m\<close> the maximum of
  the start of the matched CPU quiet period, of the first meaningful paint divided by
  1000 and of the DOM content loaded divided by 1000: the field \<open>timestamp\<close> is
  \<open>m * 1000\<close>, in the microseconds of the timestamps of the trace, and the field
  \<open>timing\<close> is \<open>(timestamp - navigationStart) / 1000\<close>, in milliseconds.
\<close>

theorem computeObservedMetric_units:
  assumes "computeObservedMetric NR TP data = Inr metric"
  shows "\<exists>info fmp dcl.
           findOverlappingQuietPeriods NR (filter (\<lambda>event. duration event \<ge> 50) (TP (traceOfTab data)))
             (networkRecords data) (traceOfTab data) = Inr info \<and>
           firstMeaningfulPaint (timestamps (traceOfTab data)) = Some fmp \<and>
           domContentLoaded (timestamps (traceOfTab data)) = Some dcl \<and>
           timestamp metric = max (start (cpuQuietPeriod info)) (max (fmp / 1000) (dcl / 1000)) * 1000 \<and>
           timing metric = (timestamp metric - navigationStart (timestamps (traceOfTab data))) / 1000"
proof -
  from computeObservedMetric_Inr [OF assms] obtain info fmp dcl where
    run: "findOverlappingQuietPeriods NR (filter (\<lambda>event. duration event \<ge> 50) (TP (traceOfTab data)))
             (networkRecords data) (traceOfTab data) = Inr info"
    and fmp: "firstMeaningfulPaint (timestamps (traceOfTab data)) = Some fmp"
    and dcl: "domContentLoaded (timestamps (traceOfTab data)) = Some dcl"
    and metric: "metric = \<lparr>timing =
                       (max (start (cpuQuietPeriod info)) (max (fmp / 1000) (dcl / 1000)) * 1000
                        - navigationStart (timestamps (traceOfTab data))) / 1000,
                     timestamp =
                       max (start (cpuQuietPeriod info)) (max (fmp / 1000) (dcl / 1000)) * 1000\<rparr>"
    by blast
  have 1: "timestamp metric = max (start (cpuQuietPeriod info)) (max (fmp / 1000) (dcl / 1000)) * 1000"
    using metric by simp
  have 2: "timing metric = (timestamp metric - navigationStart (timestamps (traceOfTab data))) / 1000"
    using metric by simp
  show ?thesis using run fmp dcl 1 2 by blast
qed

text \<open>
  The theorem at a trace with the navigation start at one second, one long task and a
  main-thread event too short to be one.
\<close>

theorem computeObservedMetric_units_witness:
  "computeObservedMetric
     (\<lambda>(records :: unit) (allowed :: nat) (traceEndTsInMs :: real). [\<lparr>start = 0, end' = 20000\<rparr>])
     (\<lambda>tab :: TraceOfTab. [\<lparr>start = 3000, end' = 3100, duration = 100\<rparr>,
        \<lparr>start = 3200, end' = 3230, duration = 30\<rparr>])
     \<lparr>traceOfTab = \<lparr>timestamps = \<lparr>navigationStart = 1000000, firstMeaningfulPaint = Some 3000000,
        domContentLoaded = Some 3500000, traceEnd = 20000000\<rparr>\<rparr>, networkRecords = ()\<rparr>
   = Inr \<lparr>timing = 3100, timestamp = 4100000\<rparr> \<and>
   (4100000::real) = max 4100 (max (3000000 / 1000) (3500000 / 1000)) * 1000 \<and>
   (3100::real) = (4100000 - 1000000) / 1000"
proof -
  have run: "computeObservedMetric
     (\<lambda>(records :: unit) (allowed :: nat) (traceEndTsInMs :: real). [\<lparr>start = 0, end' = 20000\<rparr>])
     (\<lambda>tab :: TraceOfTab. [\<lparr>start = 3000, end' = 3100, duration = 100\<rparr>,
        \<lparr>start = 3200, end' = 3230, duration = 30\<rparr>])
     \<lparr>traceOfTab = \<lparr>timestamps = \<lparr>navigationStart = 1000000, firstMeaningfulPaint = Some 3000000,
        domContentLoaded = Some 3500000, traceEnd = 20000000\<rparr>\<rparr>, networkRecords = ()\<rparr>
   = Inr \<lparr>timing = 3100, timestamp = 4100000\<rparr>"
    by (simp add: computeObservedMetric_def falsy_def findOverlappingQuietPeriods_def
        overlapLoop_def shift_def findCPUQuietPeriods_def forEachTask_def
        findNetworkQuietPeriods_def isLongEnoughQuietPeriod_def REQUIRED_QUIET_WINDOW_def)
  show ?thesis
    using computeObservedMetric_units [OF run] run by simp
qed

text \<open>
  Claim C3 as it is written has both fields in milliseconds. On the trace above the
  matched CPU quiet period starts at 4100 ms and the metric is 3100 ms, but the
  returned \<open>timestamp\<close> is 4100000: it is not the maximum of the three instants in
  milliseconds, nor the maximum of the period's start and the two raw timestamps, and
  the returned \<open>timing\<close> is not the returned \<open>timestamp\<close> minus the navigation
  start.
\<close>

theorem computeObservedMetric_units_counterexample:
  "computeObservedMetric
     (\<lambda>(records :: unit) (allowed :: nat) (traceEndTsInMs :: real). [\<lparr>start = 0, end' = 20000\<rparr>])
     (\<lambda>tab :: TraceOfTab. [\<lparr>start = 3000, end' = 3100, duration = 100\<rparr>,
        \<lparr>start = 3200, end' = 3230, duration = 30\<rparr>])
     \<lparr>traceOfTab = \<lparr>timestamps = \<lparr>navigationStart = 1000000, firstMeaningfulPaint = Some 3000000,
        domContentLoaded = Some 3500000, traceEnd = 20000000\<rparr>\<rparr>, networkRecords = ()\<rparr>
   = Inr \<lparr>timing = 3100, timestamp = 4100000\<rparr> \<and>
   findOverlappingQuietPeriods
     (\<lambda>(records :: unit) (allowed :: nat) (traceEndTsInMs :: real). [\<lparr>start = 0, end' = 20000\<rparr>])
     [\<lparr>start = 3000, end' = 3100, duration = 100\<rparr>] ()
     \<lparr>timestamps = \<lparr>navigationStart = 1000000, firstMeaningfulPaint = Some 3000000,
        domContentLoaded = Some 3500000, traceEnd = 20000000\<rparr>\<rparr>
   = Inr \<lparr>cpuQuietPeriod = \<lparr>start = 4100, end' = 20000\<rparr>,
          networkQuietPeriod = \<lparr>start = 0, end' = 20000\<rparr>,
          cpuQuietPeriods = [\<lparr>start = 4100, end' = 20000\<rparr>],
          networkQuietPeriods = [\<lparr>start = 0, end' = 20000\<rparr>]\<rparr> \<and>
   (4100000::real) \<noteq> max 4100 (max (3000000 / 1000) (3500000 / 1000)) \<and>
   (4100000::real) \<noteq> max 4100 (max 3000000 3500000) \<and>
   (3100::real) \<noteq> 4100000 - 1000000"
  by (simp add: computeObservedMetric_def falsy_def findOverlappingQuietPeriods_def
        overlapLoop_def shift_def findCPUQuietPeriods_def forEachTask_def
        findNetworkQuietPeriods_def isLongEnoughQuietPeriod_def REQUIRED_QUIET_WINDOW_def)

text \<open>
  Claim C5. The two checks of \<^verbatim>\<open>computeObservedMetric\<close> run in this order, before
  anything else. If the first meaningful paint is missing or zero, the first check
  throws \<^verbatim>\<open>NO_FMP\<close>. If the first check passes and the DOM content loaded is
  missing or zero, the second check throws \<^verbatim>\<open>NO_DCL\<close>. Both hold whatever the
  trace processor and the network recorder return, since neither is called before the
  checks, and the two errors differ from the two errors of the overlap.
\<close>

theorem computeObservedMetric_missing:
  "(firstMeaningfulPaint (timestamps (traceOfTab data)) = None \<or>
    firstMeaningfulPaint (timestamps (traceOfTab data)) = Some 0
      \<longrightarrow> computeObservedMetric NR TP data = Inl NO_FMP) \<and>
   (firstMeaningfulPaint (timestamps (traceOfTab data)) \<noteq> None \<and>
    firstMeaningfulPaint (timestamps (traceOfTab data)) \<noteq> Some 0 \<and>
    (domContentLoaded (timestamps (traceOfTab data)) = None \<or>
     domContentLoaded (timestamps (traceOfTab data)) = Some 0)
      \<longrightarrow> computeObservedMetric NR TP data = Inl NO_DCL) \<and>
   NO_FMP \<noteq> NO_TTI_CPU_IDLE_PERIOD \<and> NO_FMP \<noteq> NO_TTI_NETWORK_IDLE_PERIOD \<and>
   NO_DCL \<noteq> NO_TTI_CPU_IDLE_PERIOD \<and> NO_DCL \<noteq> NO_TTI_NETWORK_IDLE_PERIOD \<and>
   NO_FMP \<noteq> NO_DCL"
  by (auto simp: computeObservedMetric_def falsy_def split: option.splits)

text \<open>
  The theorem at a first meaningful paint of zero, at a missing one, and at a missing
  DOM content loaded on a trace for which the overlap itself would throw.
\<close>

theorem computeObservedMetric_missing_witness:
  "computeObservedMetric
     (\<lambda>(records :: unit) (allowed :: nat) (traceEndTsInMs :: real). [])
     (\<lambda>tab :: TraceOfTab. [\<lparr>start = 3000, end' = 3100, duration = 100\<rparr>,
        \<lparr>start = 3200, end' = 3230, duration = 30\<rparr>])
     \<lparr>traceOfTab = \<lparr>timestamps = \<lparr>navigationStart = 1000000, firstMeaningfulPaint = Some 0,
        domContentLoaded = Some 3500000, traceEnd = 20000000\<rparr>\<rparr>, networkRecords = ()\<rparr>
   = Inl NO_FMP \<and>
   computeObservedMetric
     (\<lambda>(records :: unit) (allowed :: nat) (traceEndTsInMs :: real). [])
     (\<lambda>tab :: TraceOfTab. [\<lparr>start = 3000, end' = 3100, duration = 100\<rparr>,
        \<lparr>start = 3200, end' = 3230, duration = 30\<rparr>])
     \<lparr>traceOfTab = \<lparr>timestamps = \<lparr>navigationStart = 1000000, firstMeaningfulPaint = None,
        domContentLoaded = Some 3500000, traceEnd = 20000000\<rparr>\<rparr>, networkRecords = ()\<rparr>
   = Inl NO_FMP \<and>
   computeObservedMetric
     (\<lambda>(records :: unit) (allowed :: nat) (traceEndTsInMs :: real). [])
     (\<lambda>tab :: TraceOfTab. [\<lparr>start = 3000, end' = 3100, duration = 100\<rparr>,
        \<lparr>start = 3200, end' = 3230, duration = 30\<rparr>])
     \<lparr>traceOfTab = \<lparr>timestamps = \<lparr>navigationStart = 1000000, firstMeaningfulPaint = Some 3000000,
        domContentLoaded = None, traceEnd = 20000000\<rparr>\<rparr>, networkRecords = ()\<rparr>
   = Inl NO_DCL \<and>
   findOverlappingQuietPeriods
     (\<lambda>(records :: unit) (allowed :: nat) (traceEndTsInMs :: real). [])
     [\<lparr>start = 3000, end' = 3100, duration = 100\<rparr>] ()
     \<lparr>timestamps = \<lparr>navigationStart = 1000000, firstMeaningfulPaint = Some 3000000,
        domContentLoaded = None, traceEnd = 20000000\<rparr>\<rparr>
   = Inl NO_TTI_NETWORK_IDLE_PERIOD"
  using computeObservedMetric_missing [of
      "\<lparr>traceOfTab = \<lparr>timestamps = \<lparr>navigationStart = 1000000, firstMeaningfulPaint = Some 0,
        domContentLoaded = Some 3500000, traceEnd = 20000000\<rparr>\<rparr>, networkRecords = ()\<rparr>"
      "\<lambda>(records :: unit) (allowed :: nat) (traceEndTsInMs :: real). []"
      "(\<lambda>tab :: TraceOfTab. [\<lparr>start = 3000, end' = 3100, duration = 100\<rparr>,
        \<lparr>start = 3200, end' = 3230, duration = 30\<rparr>])"]
    computeObservedMetric_missing [of
      "\<lparr>traceOfTab = \<lparr>timestamps = \<lparr>navigationStart = 1000000, firstMeaningfulPaint = None,
        domContentLoaded = Some 3500000, traceEnd = 20000000\<rparr>\<rparr>, networkRecords = ()\<rparr>"
      "\<lambda>(records :: unit) (allowed :: nat) (traceEndTsInMs :: real). []"
      "(\<lambda>tab :: TraceOfTab. [\<lparr>start = 3000, end' = 3100, duration = 100\<rparr>,
        \<lparr>start = 3200, end' = 3230, duration = 30\<rparr>])"]
    computeObservedMetric_missing [of
      "\<lparr>traceOfTab = \<lparr>timestamps = \<lparr>navigationStart = 1000000, firstMeaningfulPaint = Some 3000000,
        domContentLoaded = None, traceEnd = 20000000\<rparr>\<rparr>, networkRecords = ()\<rparr>"
      "\<lambda>(records :: unit) (allowed :: nat) (traceEndTsInMs :: real). []"
      "(\<lambda>tab :: TraceOfTab. [\<lparr>start = 3000, end' = 3100, duration = 100\<rparr>,
        \<lparr>start = 3200, end' = 3230, duration = 30\<rparr>])"]
  by (simp add: findOverlappingQuietPeriods_def
        overlapLoop_def shift_def findCPUQuietPeriods_def forEachTask_def
        findNetworkQuietPeriods_def isLongEnoughQuietPeriod_def REQUIRED_QUIET_WINDOW_def)

text \<open>
  Claim C8, as amended. When \<^verbatim>\<open>computeObservedMetric\<close> returns, the overlap of the
  quiet periods was found, both timestamps are present, and \<open>timing\<close> is not negative
  exactly when the navigation start is at or before the returned \<open>timestamp\<close>, which
  is \<open>m * 1000\<close> with \<open>m\<close> the maximum of the start of the matched CPU quiet period,
  of the first meaningful paint divided by 1000 and of the DOM content loaded divided
  by 1000. The start of the matched CPU quiet period gives no bound: it can be 0.
\<close>

theorem computeObservedMetric_timing_sign:
  assumes "computeObservedMetric NR TP data = Inr metric"
  shows "\<exists>info fmp dcl.
           findOverlappingQuietPeriods NR (filter (\<lambda>event. duration event \<ge> 50) (TP (traceOfTab data)))
             (networkRecords data) (traceOfTab data) = Inr info \<and>
           firstMeaningfulPaint (timestamps (traceOfTab data)) = Some fmp \<and>
           domContentLoaded (timestamps (traceOfTab data)) = Some dcl \<and>
           timestamp metric = max (start (cpuQuietPeriod info)) (max (fmp / 1000) (dcl / 1000)) * 1000 \<and>
           (0 \<le> timing metric \<longleftrightarrow>
              navigationStart (timestamps (traceOfTab data)) \<le> timestamp metric) \<and>
           (timing metric < 0 \<longleftrightarrow>
              timestamp metric < navigationStart (timestamps (traceOfTab data)))"
proof -
  from computeObservedMetric_Inr [OF assms] obtain info :: QuietPeriodInfo and fmp dcl where
    run: "findOverlappingQuietPeriods NR (filter (\<lambda>event. duration event \<ge> 50) (TP (traceOfTab data)))
             (networkRecords data) (traceOfTab data) = Inr info"
    and fmp: "firstMeaningfulPaint (timestamps (traceOfTab data)) = Some fmp"
    and dcl: "domContentLoaded (timestamps (traceOfTab data)) = Some dcl"
    and metric: "metric = \<lparr>timing =
                       (max (start (cpuQuietPeriod info)) (max (fmp / 1000) (dcl / 1000)) * 1000
                        - navigationStart (timestamps (traceOfTab data))) / 1000,
                     timestamp =
                       max (start (cpuQuietPeriod info)) (max (fmp / 1000) (dcl / 1000)) * 1000\<rparr>"
    by blast
  have 1: "timestamp metric = max (start (cpuQuietPeriod info)) (max (fmp / 1000) (dcl / 1000)) * 1000"
    using metric by simp
  have 2: "0 \<le> timing metric \<longleftrightarrow>
            navigationStart (timestamps (traceOfTab data)) \<le> timestamp metric"
    using metric by simp
  have 3: "timing metric < 0 \<longleftrightarrow>
            timestamp metric < navigationStart (timestamps (traceOfTab data))"
    using metric by simp
  show ?thesis using run fmp dcl 1 2 3 by blast
qed

text \<open>The theorem at the trace with the navigation start at one second.\<close>

theorem computeObservedMetric_timing_sign_witness:
  "computeObservedMetric
     (\<lambda>(records :: unit) (allowed :: nat) (traceEndTsInMs :: real). [\<lparr>start = 0, end' = 20000\<rparr>])
     (\<lambda>tab :: TraceOfTab. [\<lparr>start = 3000, end' = 3100, duration = 100\<rparr>,
        \<lparr>start = 3200, end' = 3230, duration = 30\<rparr>])
     \<lparr>traceOfTab = \<lparr>timestamps = \<lparr>navigationStart = 1000000, firstMeaningfulPaint = Some 3000000,
        domContentLoaded = Some 3500000, traceEnd = 20000000\<rparr>\<rparr>, networkRecords = ()\<rparr>
   = Inr \<lparr>timing = 3100, timestamp = 4100000\<rparr> \<and>
   (1000000::real) \<le> 4100000 \<and> (0::real) \<le> 3100"
proof -
  have run: "computeObservedMetric
     (\<lambda>(records :: unit) (allowed :: nat) (traceEndTsInMs :: real). [\<lparr>start = 0, end' = 20000\<rparr>])
     (\<lambda>tab :: TraceOfTab. [\<lparr>start = 3000, end' = 3100, duration = 100\<rparr>,
        \<lparr>start = 3200, end' = 3230, duration = 30\<rparr>])
     \<lparr>traceOfTab = \<lparr>timestamps = \<lparr>navigationStart = 1000000, firstMeaningfulPaint = Some 3000000,
        domContentLoaded = Some 3500000, traceEnd = 20000000\<rparr>\<rparr>, networkRecords = ()\<rparr>
   = Inr \<lparr>timing = 3100, timestamp = 4100000\<rparr>"
    by (simp add: Let_def computeObservedMetric_def falsy_def findOverlappingQuietPeriods_def
        overlapLoop_def shift_def findCPUQuietPeriods_def forEachTask_def
        findNetworkQuietPeriods_def isLongEnoughQuietPeriod_def REQUIRED_QUIET_WINDOW_def)
  show ?thesis
    using computeObservedMetric_timing_sign [OF run] run by simp
qed

text \<open>
  Claim C8 as it is written holds for every successful computation, because the
  matched CPU quiet period would start at or after the navigation start. The first
  CPU quiet period starts at 0, whatever the navigation start: with no long task, a
  navigation start at five seconds and both paints before it, the metric is -3000; and
  on the trace with the navigation start at one second and paints after it, the matched
  CPU quiet period still starts at 0, before the navigation start.
\<close>

theorem computeObservedMetric_timing_sign_counterexample:
  "computeObservedMetric
     (\<lambda>(records :: unit) (allowed :: nat) (traceEndTsInMs :: real). [\<lparr>start = 0, end' = 20000\<rparr>])
     (\<lambda>tab :: TraceOfTab. [])
     \<lparr>traceOfTab = \<lparr>timestamps = \<lparr>navigationStart = 5000000, firstMeaningfulPaint = Some 1000000,
        domContentLoaded = Some 2000000, traceEnd = 20000000\<rparr>\<rparr>, networkRecords = ()\<rparr>
   = Inr \<lparr>timing = - 3000, timestamp = 2000000\<rparr> \<and>
   (- 3000 :: real) < 0 \<and>
   findOverlappingQuietPeriods
     (\<lambda>(records :: unit) (allowed :: nat) (traceEndTsInMs :: real). [\<lparr>start = 0, end' = 20000\<rparr>])
     ([] :: TopLevelEvent list) ()
     \<lparr>timestamps = \<lparr>navigationStart = 5000000, firstMeaningfulPaint = Some 1000000,
        domContentLoaded = Some 2000000, traceEnd = 20000000\<rparr>\<rparr>
   = Inr \<lparr>cpuQuietPeriod = \<lparr>start = 0, end' = 20000\<rparr>,
          networkQuietPeriod = \<lparr>start = 0, end' = 20000\<rparr>,
          cpuQuietPeriods = [\<lparr>start = 0, end' = 20000\<rparr>],
          networkQuietPeriods = [\<lparr>start = 0, end' = 20000\<rparr>]\<rparr> \<and>
   (0::real) < 5000000 / 1000 \<and>
   findOverlappingQuietPeriods
     (\<lambda>(records :: unit) (allowed :: nat) (traceEndTsInMs :: real). [\<lparr>start = 0, end' = 20000\<rparr>])
     ([] :: TopLevelEvent list) ()
     \<lparr>timestamps = \<lparr>navigationStart = 1000000, firstMeaningfulPaint = Some 3000000,
        domContentLoaded = Some 3500000, traceEnd = 20000000\<rparr>\<rparr>
   = Inr \<lparr>cpuQuietPeriod = \<lparr>start = 0, end' = 20000\<rparr>,
          networkQuietPeriod = \<lparr>start = 0, end' = 20000\<rparr>,
          cpuQuietPeriods = [\<lparr>start = 0, end' = 20000\<rparr>],
          networkQuietPeriods = [\<lparr>start = 0, end' = 20000\<rparr>]\<rparr> \<and>
   (0::real) < 1000000 / 1000"
  by (simp add: Let_def computeObservedMetric_def falsy_def findOverlappingQuietPeriods_def
        overlapLoop_def shift_def findCPUQuietPeriods_def forEachTask_def
        findNetworkQuietPeriods_def isLongEnoughQuietPeriod_def REQUIRED_QUIET_WINDOW_def)

end
